theory Spec2Isabelle
  imports Main
begin

section \<open>JavaScript values\<close>

text \<open>
  Plain data, as the samples, the context and every \<open>toJS()\<close> result are: what a JSON
  text can hold, and \<open>undefined\<close>. Numbers are the integers. An object is the list of
  its own enumerable properties in enumeration order; its keys are distinct.
\<close>

datatype js =
    JUndefined
  | JNull
  | JBool bool
  | JNum int
  | JStr string
  | JArr "js list"
  | JObj "(string \<times> js) list"

type_synonym fields = "(string \<times> js) list"

text \<open>
  Any value the checker handles: plain data, or an object with a prototype of its own
  (\<open>Inst p fs\<close>: the prototype's number \<open>p\<close> and the own enumerable fields \<open>fs\<close>,
  which hold plain data).
\<close>

datatype val =
    Plain js
  | Inst nat fields

subsection \<open>Errors\<close>

text \<open>
  What a chai assertion expected when it failed, with the values it reports:
  \<open>ToDeepEqual actual expected\<close>, \<open>ToEqual actual expected\<close>.
\<close>

datatype expectation =
    ToBeA string
  | ToNotEqual string
  | ToInclude "string list" string
  | ToDeepEqual js js
  | ToEqual val bool
  | ToBeInstanceOf string
  | ToThrow

text \<open>
  Everything that can be thrown. \<open>AssertionError msg e\<close> is chai's error: the message
  given to \<open>expect\<close> (empty when none was given) and the failed expectation.
  \<open>Thrown v\<close> is a thrown value that is not an \<open>Error\<close> object.
\<close>

datatype error =
    TypeError string
  | SyntaxError string
  | Error string
  | AssertionError string expectation
  | Thrown js

type_synonym 'a result = "error + 'a"

definition andThen :: "'a result \<Rightarrow> ('a \<Rightarrow> 'b result) \<Rightarrow> 'b result" where
  "andThen m f = (case m of Inl e \<Rightarrow> Inl e | Inr x \<Rightarrow> f x)"

definition expect :: "bool \<Rightarrow> string \<Rightarrow> expectation \<Rightarrow> unit result" where
  "expect ok msg e = (if ok then Inr () else Inl (AssertionError msg e))"

fun isError :: "error \<Rightarrow> bool" where
  "isError (Thrown v) = False"
| "isError e = True"

subsection \<open>JSON\<close>

text \<open>A JSON text, as its syntax tree.\<close>

datatype json =
    TNull
  | TBool bool
  | TNum int
  | TStr string
  | TArr "json list"
  | TObj "(string \<times> json) list"

text \<open>
  \<open>JSON.stringify\<close> on plain data. \<open>None\<close> is the result \<open>undefined\<close> (no text); an
  \<open>undefined\<close> array element is written \<open>null\<close>, an \<open>undefined\<close> property is left out.
\<close>

fun stringify :: "js \<Rightarrow> json option"
  and stringify_elements :: "js list \<Rightarrow> json list"
  and stringify_properties :: "fields \<Rightarrow> (string \<times> json) list" where
  "stringify JUndefined = None"
| "stringify JNull = Some TNull"
| "stringify (JBool b) = Some (TBool b)"
| "stringify (JNum n) = Some (TNum n)"
| "stringify (JStr s) = Some (TStr s)"
| "stringify (JArr xs) = Some (TArr (stringify_elements xs))"
| "stringify (JObj kvs) = Some (TObj (stringify_properties kvs))"
| "stringify_elements [] = []"
| "stringify_elements (x # xs) =
     (case stringify x of None \<Rightarrow> TNull | Some t \<Rightarrow> t) # stringify_elements xs"
| "stringify_properties [] = []"
| "stringify_properties ((k, v) # kvs) =
     (case stringify v of
        None \<Rightarrow> stringify_properties kvs
      | Some t \<Rightarrow> (k, t) # stringify_properties kvs)"

fun parse :: "json \<Rightarrow> js"
  and parse_elements :: "json list \<Rightarrow> js list"
  and parse_members :: "(string \<times> json) list \<Rightarrow> fields" where
  "parse TNull = JNull"
| "parse (TBool b) = JBool b"
| "parse (TNum n) = JNum n"
| "parse (TStr s) = JStr s"
| "parse (TArr ts) = JArr (parse_elements ts)"
| "parse (TObj kts) = JObj (parse_members kts)"
| "parse_elements [] = []"
| "parse_elements (t # ts) = parse t # parse_elements ts"
| "parse_members [] = []"
| "parse_members ((k, t) # kts) = (k, parse t) # parse_members kts"

text \<open>
  \<open>JSON.parse\<close> of what \<open>JSON.stringify\<close> returned: \<open>undefined\<close> is converted to the
  text \<open>undefined\<close>, which is no JSON text.
\<close>

definition JSON_parse :: "json option \<Rightarrow> js result" where
  "JSON_parse text =
     (case text of
        None \<Rightarrow> Inl (SyntaxError ''Unexpected token u in JSON at position 0'')
      | Some t \<Rightarrow> Inr (parse t))"

subsection \<open>Deep equality\<close>

text \<open>
  chai's \<open>deep.equal\<close> on plain data: primitives by strict equality, arrays element by
  element, objects by their key sets and the values under each key, whatever the order
  of the keys.
\<close>

fun deep_equal :: "js \<Rightarrow> js \<Rightarrow> bool"
  and deep_equal_elements :: "js list \<Rightarrow> js list \<Rightarrow> bool"
  and deep_equal_properties :: "fields \<Rightarrow> fields \<Rightarrow> bool" where
  "deep_equal (JArr xs) (JArr ys) = deep_equal_elements xs ys"
| "deep_equal (JObj kvs) (JObj kws) =
     (length kvs = length kws \<and> deep_equal_properties kvs kws)"
| "deep_equal a b = (a = b)"
| "deep_equal_elements [] [] = True"
| "deep_equal_elements (x # xs) (y # ys) = (deep_equal x y \<and> deep_equal_elements xs ys)"
| "deep_equal_elements _ _ = False"
| "deep_equal_properties [] kws = True"
| "deep_equal_properties ((k, v) # kvs) kws =
     (case map_of kws k of
        None \<Rightarrow> False
      | Some w \<Rightarrow> deep_equal v w \<and> deep_equal_properties kvs kws)"

subsection \<open>Text helpers\<close>

fun show_nat :: "nat \<Rightarrow> string" where
  "show_nat n =
     (if n < 10 then [''0123456789'' ! n]
      else show_nat (n div 10) @ [''0123456789'' ! (n mod 10)])"

declare show_nat.simps [simp del]

text \<open>\<open>String.prototype.toLowerCase\<close> on one character (ASCII letters).\<close>

definition toLowerCase :: "char \<Rightarrow> char" where
  "toLowerCase c =
     (case map_of (zip ''ABCDEFGHIJKLMNOPQRSTUVWXYZ'' ''abcdefghijklmnopqrstuvwxyz'') c of
        None \<Rightarrow> c
      | Some l \<Rightarrow> l)"

section \<open>Objects with behaviour\<close>

text \<open>
  A property that is looked up for a method: \<open>Default\<close> is what \<open>Object.prototype\<close>
  gives (its own \<open>valueOf\<close> and \<open>toString\<close>; \<open>undefined\<close> for \<open>toJS\<close>, \<open>toJSON\<close>,
  \<open>equals\<close> and \<open>fromJS\<close>), \<open>NotAFunction\<close> a value that is no function, \<open>Method f\<close> a
  function of the candidate's code. A method takes the receiver's own fields first.
\<close>

datatype 'f property =
    Default
  | NotAFunction
  | Method 'f

text \<open>
  What a prototype chain provides to the objects that have it: the methods the checker
  calls, the prototypes above it (\<open>Object.prototype\<close> apart), the name of its
  constructor, and the names of its enumerable properties.
\<close>

record proto =
  valueOf :: "(fields \<Rightarrow> val result) property"
  toString :: "(fields \<Rightarrow> val result) property"
  toJS :: "(fields \<Rightarrow> js result) property"
  toJSON :: "(fields \<Rightarrow> js result) property"
  equals :: "(fields \<Rightarrow> val \<Rightarrow> val result) property"
  ancestors :: "nat list"
  constructorName :: string
  enumerable :: "string list"

type_synonym protos = "nat \<Rightarrow> proto"

text \<open>
  A constructor function, the \<open>ClassFn\<close> under test. \<open>fromJS arg context\<close> returns the
  instance and what \<open>arg\<close> holds after the call (a \<open>fromJS\<close> that changes its argument
  in place returns it changed). \<open>new v\<close> is \<open>new ClassFn(v)\<close>.

  The code of the class under test computes from its arguments alone: it keeps no
  state from one call to the next, and of what it does to the heap the model keeps
  what \<open>fromJS\<close> does to its first argument. The samples share no structure with one
  another or with the context.
\<close>

record class_fn =
  name :: string
  fromJS :: "(js \<Rightarrow> js \<Rightarrow> (js \<times> val) result) property"
  PROPERTIES :: js
  prototype :: nat
  new :: "val \<Rightarrow> val result"

text \<open>The first argument of \<open>testImmutableClass\<close> is typed \<open>any\<close>.\<close>

datatype any_fn =
    NonFunction js
  | Constructor class_fn

record TesterOptions =
  newThrows :: "bool option"
  context' :: js

subsection \<open>Calls\<close>

text \<open>
  Only an array or an object can be changed in place, and it stays one: what the
  caller's reference holds after a call that was given \<open>arg\<close>.
\<close>

fun mutated :: "js \<Rightarrow> js \<Rightarrow> js" where
  "mutated (JArr xs) (JArr ys) = JArr ys"
| "mutated (JObj kvs) (JObj kws) = JObj kws"
| "mutated arg after = arg"

definition call_fromJS :: "class_fn \<Rightarrow> js \<Rightarrow> js \<Rightarrow> (js \<times> val) result" where
  "call_fromJS C arg ctx =
     (case fromJS C of
        Method f \<Rightarrow>
          (case f arg ctx of
             Inl e \<Rightarrow> Inl e
           | Inr (after, r) \<Rightarrow> Inr (mutated arg after, r))
      | _ \<Rightarrow> Inl (TypeError ''ClassFn.fromJS is not a function''))"

text \<open>An own field hides the prototype's property; a field holds plain data, no function.\<close>

definition own_or :: "fields \<Rightarrow> string \<Rightarrow> 'f property \<Rightarrow> 'f property" where
  "own_or fs key inherited =
     (case map_of fs key of None \<Rightarrow> inherited | Some v \<Rightarrow> NotAFunction)"

definition call_valueOf :: "protos \<Rightarrow> nat \<Rightarrow> fields \<Rightarrow> val result" where
  "call_valueOf ps p fs =
     (case own_or fs ''valueOf'' (valueOf (ps p)) of
        Default \<Rightarrow> Inr (Inst p fs)
      | NotAFunction \<Rightarrow> Inl (TypeError ''inst.valueOf is not a function'')
      | Method f \<Rightarrow> f fs)"

definition call_toString :: "protos \<Rightarrow> nat \<Rightarrow> fields \<Rightarrow> val result" where
  "call_toString ps p fs =
     (case own_or fs ''toString'' (toString (ps p)) of
        Default \<Rightarrow> Inr (Plain (JStr ''[object Object]''))
      | NotAFunction \<Rightarrow> Inl (TypeError ''inst.toString is not a function'')
      | Method f \<Rightarrow> f fs)"

fun call_toJS :: "protos \<Rightarrow> val \<Rightarrow> js result" where
  "call_toJS ps (Inst p fs) =
     (case own_or fs ''toJS'' (toJS (ps p)) of
        Method f \<Rightarrow> f fs
      | _ \<Rightarrow> Inl (TypeError ''toJS is not a function''))"
| "call_toJS ps (Plain j) = Inl (TypeError ''toJS is not a function'')"

fun call_equals :: "protos \<Rightarrow> val \<Rightarrow> val \<Rightarrow> val result" where
  "call_equals ps (Inst p fs) other =
     (case own_or fs ''equals'' (equals (ps p)) of
        Method f \<Rightarrow> f fs other
      | _ \<Rightarrow> Inl (TypeError ''equals is not a function''))"
| "call_equals ps (Plain j) other = Inl (TypeError ''equals is not a function'')"

text \<open>
  \<open>JSON.stringify\<close> on any value: an object with a \<open>toJSON\<close> method is written as
  what the method returns, any other object by its own enumerable fields.
\<close>

fun JSON_stringify :: "protos \<Rightarrow> val \<Rightarrow> json option result" where
  "JSON_stringify ps (Plain j) = Inr (stringify j)"
| "JSON_stringify ps (Inst p fs) =
     (case own_or fs ''toJSON'' (toJSON (ps p)) of
        Method f \<Rightarrow> andThen (f fs) (\<lambda>j. Inr (stringify j))
      | _ \<Rightarrow> Inr (stringify (JObj fs)))"

text \<open>\<open>thing instanceof ClassFn\<close>: the constructor's prototype is on the chain.\<close>

fun instanceOf :: "protos \<Rightarrow> val \<Rightarrow> class_fn \<Rightarrow> bool" where
  "instanceOf ps (Inst p fs) C = (p = prototype C \<or> List.member (ancestors (ps p)) (prototype C))"
| "instanceOf ps (Plain j) C = False"

text \<open>
  What \<open>instance.valueOf\<close>, \<open>instance.toString\<close>, \<open>instance.toJS\<close>, ... evaluate to, as
  far as the assertions on them see: reading a property of \<open>undefined\<close> or \<open>null\<close>
  throws; booleans, numbers, strings and arrays have the built-in methods of their
  prototypes (an array's \<open>valueOf\<close> is \<open>Object.prototype\<close>'s); a plain object has
  \<open>Object.prototype\<close>'s and its own fields.
\<close>

datatype looked_up =
    ObjectPrototypeFunction
  | OtherFunction
  | NoFunction

fun looked_up_of :: "bool \<Rightarrow> 'f property \<Rightarrow> looked_up" where
  "looked_up_of on_Object_prototype Default =
     (if on_Object_prototype then ObjectPrototypeFunction else NoFunction)"
| "looked_up_of on_Object_prototype NotAFunction = NoFunction"
| "looked_up_of on_Object_prototype (Method f) = OtherFunction"

fun proto_get :: "proto \<Rightarrow> string \<Rightarrow> looked_up" where
  "proto_get P key =
     (if key = ''valueOf'' then looked_up_of True (valueOf P)
      else if key = ''toString'' then looked_up_of True (toString P)
      else if key = ''toJS'' then looked_up_of False (toJS P)
      else if key = ''toJSON'' then looked_up_of False (toJSON P)
      else if key = ''equals'' then looked_up_of False (equals P)
      else NoFunction)"

fun get :: "protos \<Rightarrow> val \<Rightarrow> string \<Rightarrow> looked_up result" where
  "get ps (Plain JUndefined) key = Inl (TypeError ''Cannot read property of undefined'')"
| "get ps (Plain JNull) key = Inl (TypeError ''Cannot read property of null'')"
| "get ps (Plain (JArr xs)) key =
     Inr (if key = ''valueOf'' then ObjectPrototypeFunction
          else if key = ''toString'' then OtherFunction
          else NoFunction)"
| "get ps (Plain (JObj kvs)) key =
     Inr (case map_of kvs key of
            Some v \<Rightarrow> NoFunction
          | None \<Rightarrow>
              if key = ''valueOf'' \<or> key = ''toString'' then ObjectPrototypeFunction
              else NoFunction)"
| "get ps (Plain primitive) key =
     Inr (if key = ''valueOf'' \<or> key = ''toString'' then OtherFunction else NoFunction)"
| "get ps (Inst p fs) key =
     Inr (case map_of fs key of
            Some v \<Rightarrow> NoFunction
          | None \<Rightarrow> proto_get (ps p) key)"

section \<open>The checker\<close>

definition PROPERTY_KEYS :: "string list" where
  "PROPERTY_KEYS =
     [''name'', ''defaultValue'', ''possibleValues'', ''validate'', ''immutableClass'',
      ''immutableClassArray'', ''immutableClassLookup'', ''equal'', ''toJS'', ''type'',
      ''contextTransform'', ''preserveUndefined'', ''emptyArrayIsOk'']"

subsection \<open>Language primitives the checker uses\<close>

text \<open>The condition of \<open>if (x)\<close>.\<close>

fun truthy :: "js \<Rightarrow> bool" where
  "truthy JUndefined = False"
| "truthy JNull = False"
| "truthy (JBool b) = b"
| "truthy (JNum n) = (n \<noteq> 0)"
| "truthy (JStr s) = (s \<noteq> [])"
| "truthy (JArr xs) = True"
| "truthy (JObj kvs) = True"

fun isArray :: "js \<Rightarrow> bool" where
  "isArray (JArr xs) = True"
| "isArray v = False"

fun isString :: "val \<Rightarrow> bool" where
  "isString (Plain (JStr s)) = True"
| "isString v = False"

fun elements :: "js \<Rightarrow> js list" where
  "elements (JArr xs) = xs"
| "elements v = []"

text \<open>
  \<open>Object.keys\<close>: the own enumerable keys; the indices of an array or a string; none
  for a boolean or a number; a \<open>TypeError\<close> for \<open>undefined\<close> and \<open>null\<close>.
\<close>

fun Object_keys :: "js \<Rightarrow> string list result" where
  "Object_keys JUndefined = Inl (TypeError ''Cannot convert undefined or null to object'')"
| "Object_keys JNull = Inl (TypeError ''Cannot convert undefined or null to object'')"
| "Object_keys (JBool b) = Inr []"
| "Object_keys (JNum n) = Inr []"
| "Object_keys (JStr s) = Inr (map show_nat [0..<length s])"
| "Object_keys (JArr xs) = Inr (map show_nat [0..<length xs])"
| "Object_keys (JObj kvs) = Inr (map fst kvs)"

text \<open>\<open>property.name\<close>, for a value \<open>Object.keys\<close> accepted.\<close>

fun get_name :: "js \<Rightarrow> js" where
  "get_name (JObj kvs) = (case map_of kvs ''name'' of None \<Rightarrow> JUndefined | Some v \<Rightarrow> v)"
| "get_name v = JUndefined"

fun forEach :: "'a list \<Rightarrow> ('a \<Rightarrow> unit result) \<Rightarrow> unit result" where
  "forEach [] f = Inr ()"
| "forEach (x # xs) f = andThen (f x) (\<lambda>u. forEach xs f)"

text \<open>
  The keys a \<open>for (key in inst)\<close> loop visits: the own ones, then the enumerable ones
  of the prototype chain that no own field hides.
\<close>

definition for_in :: "protos \<Rightarrow> nat \<Rightarrow> fields \<Rightarrow> string list" where
  "for_in ps p fs =
     map fst fs @ filter (\<lambda>k. map_of fs k = None) (enumerable (ps p))"

definition hasOwnProp :: "fields \<Rightarrow> string \<Rightarrow> bool" where
  "hasOwnProp fs key = (map_of fs key \<noteq> None)"

text \<open>Lines 347 to 351: the plain object that holds the own fields of \<open>inst\<close>.\<close>

fun lazyCopy :: "fields \<Rightarrow> string list \<Rightarrow> fields" where
  "lazyCopy fs [] = []"
| "lazyCopy fs (key # keys) =
     (if \<not> hasOwnProp fs key then lazyCopy fs keys
      else (case map_of fs key of
              None \<Rightarrow> lazyCopy fs keys
            | Some v \<Rightarrow> (key, v) # lazyCopy fs keys))"

text \<open>
  \<open>expect(inst, msg).to.be.instanceOf(ClassFn)\<close>; what follows it works on an object
  with a prototype of its own, whose parts the assertion hands on.
\<close>

fun expect_instanceOf :: "protos \<Rightarrow> val \<Rightarrow> string \<Rightarrow> class_fn \<Rightarrow> (nat \<times> fields) result" where
  "expect_instanceOf ps (Inst p fs) msg C =
     (if instanceOf ps (Inst p fs) C then Inr (p, fs)
      else Inl (AssertionError msg (ToBeInstanceOf (name C))))"
| "expect_instanceOf ps (Plain j) msg C = Inl (AssertionError msg (ToBeInstanceOf (name C)))"

text \<open>\<open>expect(() => { new ClassFn(v) }, msg).to.throw(Error)\<close>.\<close>

definition expect_throw :: "val result \<Rightarrow> string \<Rightarrow> unit result" where
  "expect_throw r msg =
     (case r of
        Inl e \<Rightarrow> expect (isError e) msg ToThrow
      | Inr v \<Rightarrow> Inl (AssertionError msg ToThrow))"

subsection \<open>Lines 296 to 304: the property descriptors\<close>

definition check_key :: "js \<Rightarrow> string \<Rightarrow> unit result" where
  "check_key property key =
     andThen (expect (List.member PROPERTY_KEYS key) [] (ToInclude PROPERTY_KEYS key)) (\<lambda>u.
     expect (isString (Plain (get_name property))) [] (ToBeA ''string''))"

definition check_property :: "js \<Rightarrow> unit result" where
  "check_property property =
     andThen (Object_keys property) (\<lambda>keys. forEach keys (check_key property))"

definition check_PROPERTIES :: "class_fn \<Rightarrow> unit result" where
  "check_PROPERTIES C =
     (if truthy (PROPERTIES C) then
        andThen (expect (isArray (PROPERTIES C)) ''PROPERTIES should be an array'' (ToBeA ''array'')) (\<lambda>u.
        forEach (elements (PROPERTIES C)) check_property)
      else Inr ())"

subsection \<open>Lines 307 to 380: one sample\<close>

definition in_object :: "nat \<Rightarrow> string" where
  "in_object i = ''[in object '' @ show_nat i @ '']''"

definition check_object ::
  "protos \<Rightarrow> class_fn \<Rightarrow> TesterOptions \<Rightarrow> string \<Rightarrow> string \<Rightarrow> js list \<Rightarrow> nat \<Rightarrow> unit result" where
  "check_object ps C options className instanceName objects i =
     (let where = in_object i;
          objectJSON = stringify (objects ! i) in
      andThen (JSON_parse objectJSON) (\<lambda>objectCopy1.
      andThen (JSON_parse objectJSON) (\<lambda>objectCopy2.
      andThen (call_fromJS C objectCopy1 (context' options)) (\<lambda>called.
      andThen (expect (deep_equal (fst called) objectCopy2)
                 (className @ ''.fromJS function modified its input :-('')
                 (ToDeepEqual (fst called) objectCopy2)) (\<lambda>u.
      andThen (expect_instanceOf ps (snd called)
                 (className @ ''.fromJS did not return a '' @ className @ '' instance '' @ where) C) (\<lambda>parts.
      let inst = Inst (fst parts) (snd parts) in
      andThen (call_toString ps (fst parts) (snd parts)) (\<lambda>s.
      andThen (expect (isString s)
                 (instanceName @ ''.toString() must return a string '' @ where)
                 (ToBeA ''string'')) (\<lambda>u.
      andThen (call_equals ps inst (Plain JNull)) (\<lambda>r.
      andThen (expect (r = Plain (JBool False))
                 (instanceName @ ''.equals(null) should be false '' @ where)
                 (ToEqual r False)) (\<lambda>u.
      andThen (call_equals ps inst (Plain (JArr []))) (\<lambda>r.
      andThen (expect (r = Plain (JBool False))
                 (instanceName @ ''.equals([]) should be false '' @ where)
                 (ToEqual r False)) (\<lambda>u.
      andThen (call_toJS ps inst) (\<lambda>t.
      andThen (expect (deep_equal t (objects ! i))
                 (className @ ''.fromJS(obj).toJS() was not a fixed point (did not deep equal obj) '' @ where)
                 (ToDeepEqual t (objects ! i))) (\<lambda>u.
      andThen (call_valueOf ps (fst parts) (snd parts)) (\<lambda>instValueOf.
      andThen (call_equals ps inst instValueOf) (\<lambda>r.
      andThen (expect (r = Plain (JBool False))
                 (''inst.equals(inst.valueOf()) '' @ where)
                 (ToEqual r False)) (\<lambda>u.
      let instLazyCopy = Plain (JObj (lazyCopy (snd parts) (for_in ps (fst parts) (snd parts)))) in
      andThen (call_equals ps inst instLazyCopy) (\<lambda>r.
      andThen (expect (r = Plain (JBool False))
                 (''inst.equals(*an object with the same values*) '' @ where)
                 (ToEqual r False)) (\<lambda>u.
      andThen
        (if newThrows options = Some True then
           expect_throw (new C instValueOf)
             (''new '' @ className @ '' did not throw as indicated '' @ where)
         else
           andThen (new C instValueOf) (\<lambda>instValueCopy.
           andThen (call_equals ps inst instValueCopy) (\<lambda>r.
           andThen (expect (r = Plain (JBool True))
                      (''new '' @ className @ ''().toJS() is not equal to the original '' @ where)
                      (ToEqual r True)) (\<lambda>u.
           andThen (call_toJS ps instValueCopy) (\<lambda>t1.
           andThen (call_toJS ps inst) (\<lambda>t2.
           expect (deep_equal t1 t2)
             (''new '' @ className @ ''('' @ instanceName @ ''.valueOf()).toJS() returned something bad '' @ where)
             (ToDeepEqual t1 t2))))))) (\<lambda>u.
      andThen (JSON_stringify ps inst) (\<lambda>instJSON.
      andThen (JSON_parse instJSON) (\<lambda>parsed.
      andThen (call_fromJS C parsed (context' options)) (\<lambda>called2.
      let instJSONCopy = snd called2 in
      andThen (call_equals ps inst instJSONCopy) (\<lambda>r.
      andThen (expect (r = Plain (JBool True))
                 (''JS Copy does not equal original '' @ where)
                 (ToEqual r True)) (\<lambda>u.
      andThen (call_toJS ps instJSONCopy) (\<lambda>t1.
      andThen (call_toJS ps inst) (\<lambda>t2.
      expect (deep_equal t1 t2)
        (className @ ''.fromJS(JSON.parse(JSON.stringify('' @ instanceName @ ''))).toJS() returned something bad '' @ where)
        (ToDeepEqual t1 t2))))))))))))))))))))))))))))"

subsection \<open>Lines 307 to 380: the loop over the samples\<close>

function preserves_loop ::
  "protos \<Rightarrow> class_fn \<Rightarrow> TesterOptions \<Rightarrow> string \<Rightarrow> string \<Rightarrow> js list \<Rightarrow> nat \<Rightarrow> unit result" where
  "preserves_loop ps C options className instanceName objects i =
     (if i < length objects then
        (case check_object ps C options className instanceName objects i of
           Inl e \<Rightarrow> Inl e
         | Inr u \<Rightarrow> preserves_loop ps C options className instanceName objects (Suc i))
      else Inr ())"
  by pat_completeness auto
termination
  by (relation "measure (\<lambda>(ps, C, options, className, instanceName, objects, i). length objects - i)")
    auto

declare preserves_loop.simps [simp del]

subsection \<open>Lines 383 to 392: objects are equal only to themselves\<close>

text \<open>
  \<open>ClassFn.fromJS\<close> is given the elements of \<open>objects\<close> themselves here, so what it
  leaves in them is what the array holds from then on: the loops pass the array along
  and return it.
\<close>

definition check_equality :: "protos \<Rightarrow> nat \<Rightarrow> nat \<Rightarrow> val \<Rightarrow> val \<Rightarrow> unit result" where
  "check_equality ps j k objectJ objectK =
     andThen (call_equals ps objectJ objectK) (\<lambda>r.
     expect (r = Plain (JBool (j = k)))
       (''Equality of objects '' @ show_nat j @ '' and '' @ show_nat k @ '' was wrong'')
       (ToEqual r (j = k)))"

function equality_inner ::
  "protos \<Rightarrow> class_fn \<Rightarrow> js \<Rightarrow> nat \<Rightarrow> val \<Rightarrow> js list \<Rightarrow> nat \<Rightarrow> js list result" where
  "equality_inner ps C ctx j objectJ objects k =
     (if k < length objects then
        (case call_fromJS C (objects ! k) ctx of
           Inl e \<Rightarrow> Inl e
         | Inr called \<Rightarrow>
             (case check_equality ps j k objectJ (snd called) of
                Inl e \<Rightarrow> Inl e
              | Inr u \<Rightarrow> equality_inner ps C ctx j objectJ (objects[k := fst called]) (Suc k)))
      else Inr objects)"
  by pat_completeness auto
termination
  by (relation "measure (\<lambda>(ps, C, ctx, j, objectJ, objects, k). length objects - k)") auto

declare equality_inner.simps [simp del]

lemma equality_inner_length:
  "equality_inner ps C ctx j objectJ objects k = Inr objects' \<Longrightarrow> length objects' = length objects"
proof (induction ps C ctx j objectJ objects k rule: equality_inner.induct)
  case (1 ps C ctx j objectJ objects k)
  show ?case
  proof (cases "k < length objects")
    case False
    with "1.prems" show ?thesis
      by (simp add: equality_inner.simps [of ps C ctx j objectJ objects k])
  next
    case True
    from True "1.prems" obtain called where
      c: "call_fromJS C (objects ! k) ctx = Inr called" and
      e: "check_equality ps j k objectJ (snd called) = Inr ()" and
      r: "equality_inner ps C ctx j objectJ (objects[k := fst called]) (Suc k) = Inr objects'"
      by (simp add: equality_inner.simps [of ps C ctx j objectJ objects k] split: sum.splits)
    from "1.IH" [OF True c e r] show ?thesis by simp
  qed
qed

function equality_outer ::
  "protos \<Rightarrow> class_fn \<Rightarrow> js \<Rightarrow> js list \<Rightarrow> nat \<Rightarrow> js list result" where
  "equality_outer ps C ctx objects j =
     (if j < length objects then
        (case call_fromJS C (objects ! j) ctx of
           Inl e \<Rightarrow> Inl e
         | Inr called \<Rightarrow>
             (case equality_inner ps C ctx j (snd called) (objects[j := fst called]) j of
                Inl e \<Rightarrow> Inl e
              | Inr objects' \<Rightarrow> equality_outer ps C ctx objects' (Suc j)))
      else Inr objects)"
  by pat_completeness auto
termination
  by (relation "measure (\<lambda>(ps, C, ctx, objects, j). length objects - j)")
    (auto dest: equality_inner_length)

declare equality_outer.simps [simp del]

subsection \<open>Lines 270 to 393: testImmutableClass\<close>

text \<open>Line 281: \<open>className[0].toLowerCase() + className.substring(1)\<close>.\<close>

definition instance_name :: "string \<Rightarrow> string" where
  "instance_name className = toLowerCase (hd className) # tl className"

fun is_function :: "'f property \<Rightarrow> bool" where
  "is_function (Method f) = True"
| "is_function p = False"

text \<open>
  The result is the error thrown, if any; otherwise what the caller's array \<open>objects\<close>
  holds when the function returns.
\<close>

definition testImmutableClass ::
  "protos \<Rightarrow> any_fn \<Rightarrow> js \<Rightarrow> TesterOptions \<Rightarrow> js list result" where
  "testImmutableClass ps ClassFn objects options =
     (case ClassFn of
        NonFunction v \<Rightarrow> Inl (TypeError ''ClassFn must be a constructor function'')
      | Constructor C \<Rightarrow>
          if \<not> isArray objects then
            Inl (TypeError ''objects must be a non-empty array of js to test'')
          else if length (elements objects) = 0 then
            Inl (TypeError ''objects must be a non-empty array of js to test'')
          else
            let className = name C in
            if length className < 1 then
              Inl (Error ''Class must have a name of at least 1 letter'')
            else
              let instanceName = instance_name className in
              andThen (expect (is_function (fromJS C))
                         (className @ ''.fromJS should exist'') (ToBeA ''function'')) (\<lambda>u.
              andThen (call_fromJS C (elements objects ! 0) (context' options)) (\<lambda>called.
              let objects1 = (elements objects)[0 := fst called];
                  instance = snd called in
              andThen (get ps instance ''valueOf'') (\<lambda>m.
              andThen (expect (m \<noteq> ObjectPrototypeFunction)
                         ''Instance should implement valueOf''
                         (ToNotEqual ''Object.prototype.valueOf'')) (\<lambda>u.
              andThen (get ps instance ''toString'') (\<lambda>m.
              andThen (expect (m \<noteq> ObjectPrototypeFunction)
                         ''Instance should implement toString''
                         (ToNotEqual ''Object.prototype.toString'')) (\<lambda>u.
              andThen (get ps instance ''toJS'') (\<lambda>m.
              andThen (expect (m \<noteq> NoFunction)
                         ''Instance should have a toJS function'' (ToBeA ''function'')) (\<lambda>u.
              andThen (get ps instance ''toJSON'') (\<lambda>m.
              andThen (expect (m \<noteq> NoFunction)
                         ''Instance should have a toJSON function'' (ToBeA ''function'')) (\<lambda>u.
              andThen (get ps instance ''equals'') (\<lambda>m.
              andThen (expect (m \<noteq> NoFunction)
                         ''Instance should have an equals function'' (ToBeA ''function'')) (\<lambda>u.
              andThen (check_PROPERTIES C) (\<lambda>u.
              andThen (preserves_loop ps C options className instanceName objects1 0) (\<lambda>u.
              equality_outer ps C (context' options) objects1 0)))))))))))))))"

section \<open>The classes of the test file\<close>

text \<open>Own field access \<open>thing.key\<close> on fields; \<open>undefined\<close> when there is none.\<close>

definition field :: "fields \<Rightarrow> string \<Rightarrow> js" where
  "field fs key = (case map_of fs key of None \<Rightarrow> JUndefined | Some v \<Rightarrow> v)"

text \<open>\<open>===\<close> on primitives (two object references are taken to differ).\<close>

fun strict_equal :: "js \<Rightarrow> js \<Rightarrow> bool" where
  "strict_equal (JArr xs) b = False"
| "strict_equal (JObj kvs) b = False"
| "strict_equal a b = (a = b)"

text \<open>
  The names of the constructors along the prototype chain of a value, as the loop of
  \<open>isInstanceOf\<close> meets them.
\<close>

fun constructor_names :: "protos \<Rightarrow> val \<Rightarrow> string list" where
  "constructor_names ps (Inst p fs) =
     constructorName (ps p) # map (\<lambda>q. constructorName (ps q)) (ancestors (ps p)) @ [''Object'']"
| "constructor_names ps (Plain (JBool b)) = [''Boolean'', ''Object'']"
| "constructor_names ps (Plain (JNum n)) = [''Number'', ''Object'']"
| "constructor_names ps (Plain (JStr s)) = [''String'', ''Object'']"
| "constructor_names ps (Plain (JArr xs)) = [''Array'', ''Object'']"
| "constructor_names ps (Plain j) = [''Object'']"

text \<open>Lines 22 to 34.\<close>

fun isInstanceOf :: "protos \<Rightarrow> val \<Rightarrow> any_fn \<Rightarrow> bool result" where
  "isInstanceOf ps thing (NonFunction v) = Inl (TypeError ''constructor must be a function'')"
| "isInstanceOf ps thing (Constructor C) =
     (if instanceOf ps thing C then Inr True
      else if thing = Plain JUndefined then Inr False
      else if thing = Plain JNull then Inr False
      else if name C = [] then Inr False
      else Inr (List.member (constructor_names ps thing) (name C)))"

text \<open>
  Prototypes without methods: number 1 is \<open>Animal.prototype\<close>, number 2
  \<open>AnimalNoFromJS.prototype\<close>, number 3 that of the class \<open>Memo\<close> below; none extends
  another. The methods compiled onto a prototype are enumerable (all these classes are
  compiled as the test file's are).
\<close>

definition bare :: protos where
  "bare p =
     \<lparr>valueOf = Default, toString = Default, toJS = Default, toJSON = Default,
      equals = Default, ancestors = [],
      constructorName =
        (if p = 1 then ''Animal'' else if p = 2 then ''AnimalNoFromJS''
         else if p = 3 then ''Memo'' else ''Object''),
      enumerable =
        (if p = 1 \<or> p = 3 then [''toString'', ''valueOf'', ''toJS'', ''toJSON'', ''equals'']
         else [])\<rparr>"

text \<open>Lines 36 to 72: \<open>Animal\<close>.\<close>

fun remove_hashtag :: "string \<Rightarrow> string" where
  "remove_hashtag (c # cs) = (if c = CHR ''#'' then cs else c # cs)"
| "remove_hashtag [] = []"

fun Animal_fromJS :: "js \<Rightarrow> js \<Rightarrow> (js \<times> val) result" where
  "Animal_fromJS (JStr s) ctx = Inr (JStr s, Inst 1 [(''name'', JStr (remove_hashtag s))])"
| "Animal_fromJS JUndefined ctx = Inl (TypeError ''Cannot read property replace of undefined'')"
| "Animal_fromJS JNull ctx = Inl (TypeError ''Cannot read property replace of null'')"
| "Animal_fromJS v ctx = Inl (TypeError ''name.replace is not a function'')"

text \<open>
  \<open>new Animal(name)\<close> keeps its argument in the field \<open>name\<close> (fields hold plain data:
  of an object with a prototype they keep the own fields).
\<close>

fun Animal_new :: "val \<Rightarrow> val result" where
  "Animal_new (Plain j) = Inr (Inst 1 [(''name'', j)])"
| "Animal_new (Inst p fs) = Inr (Inst 1 [(''name'', JObj fs)])"

definition Animal :: class_fn where
  "Animal =
     \<lparr>name = ''Animal'', fromJS = Method Animal_fromJS, PROPERTIES = JUndefined,
      prototype = 1, new = Animal_new\<rparr>"

fun own_fields :: "val \<Rightarrow> fields" where
  "own_fields (Inst p fs) = fs"
| "own_fields (Plain (JObj kvs)) = kvs"
| "own_fields (Plain j) = []"

definition Animal_equals :: "fields \<Rightarrow> val \<Rightarrow> val result" where
  "Animal_equals fs other =
     andThen (isInstanceOf bare other (Constructor Animal)) (\<lambda>isAnimal.
     Inr (Plain (JBool (isAnimal \<and> strict_equal (field fs ''name'') (field (own_fields other) ''name'')))))"

definition Animal_prototype :: proto where
  "Animal_prototype =
     (bare 1)
       \<lparr>valueOf := Method (\<lambda>fs. Inr (Plain (field fs ''name''))),
        toString := Method (\<lambda>fs. Inr (Plain (field fs ''name''))),
        toJS := Method (\<lambda>fs. Inr (field fs ''name'')),
        toJSON := Method (\<lambda>fs. Inr (field fs ''name'')),
        equals := Method Animal_equals\<rparr>"

text \<open>Lines 74 to 84: \<open>AnimalNoFromJS\<close>.\<close>

definition AnimalNoFromJS :: class_fn where
  "AnimalNoFromJS =
     \<lparr>name = ''AnimalNoFromJS'', fromJS = Default, PROPERTIES = JUndefined,
      prototype = 2, new = (\<lambda>v. Inr (Inst 2 [(''name'', JObj (own_fields v))]))\<rparr>"

section \<open>A class that tidies its argument\<close>

text \<open>
  \<^verbatim>\<open>
  class Memo {
    static fromJS(js) {
      if (js.note === undefined) delete js.note;
      return new Memo({ id: js.id, note: js.note });
    }
    constructor(p) { this.id = p.id; this.note = p.note; }
    toString() { return 'Memo'; }
    valueOf() { return { id: this.id, note: this.note }; }
    toJS() { return { id: this.id, note: this.note }; }
    toJSON() { return this.toJS(); }
    equals(other) {
      return other instanceof Memo && this.id === other.id && this.note === other.note;
    }
  }
  \<close>
\<close>

fun Memo_fromJS :: "js \<Rightarrow> js \<Rightarrow> (js \<times> val) result" where
  "Memo_fromJS JUndefined ctx = Inl (TypeError ''Cannot read property note of undefined'')"
| "Memo_fromJS JNull ctx = Inl (TypeError ''Cannot read property note of null'')"
| "Memo_fromJS (JObj kvs) ctx =
     Inr (if field kvs ''note'' = JUndefined then JObj (filter (\<lambda>kv. fst kv \<noteq> ''note'') kvs)
          else JObj kvs,
          Inst 3 [(''id'', field kvs ''id''), (''note'', field kvs ''note'')])"
| "Memo_fromJS v ctx = Inr (v, Inst 3 [(''id'', JUndefined), (''note'', JUndefined)])"

fun Memo_new :: "val \<Rightarrow> val result" where
  "Memo_new (Plain JUndefined) = Inl (TypeError ''Cannot read property id of undefined'')"
| "Memo_new (Plain JNull) = Inl (TypeError ''Cannot read property id of null'')"
| "Memo_new v =
     Inr (Inst 3 [(''id'', field (own_fields v) ''id''), (''note'', field (own_fields v) ''note'')])"

definition Memo :: class_fn where
  "Memo =
     \<lparr>name = ''Memo'', fromJS = Method Memo_fromJS, PROPERTIES = JUndefined,
      prototype = 3, new = Memo_new\<rparr>"

definition Memo_toJS :: "fields \<Rightarrow> js" where
  "Memo_toJS fs = JObj [(''id'', field fs ''id''), (''note'', field fs ''note'')]"

definition Memo_equals :: "fields \<Rightarrow> val \<Rightarrow> val result" where
  "Memo_equals fs other =
     Inr (Plain (JBool (instanceOf bare other Memo
        \<and> strict_equal (field fs ''id'') (field (own_fields other) ''id'')
        \<and> strict_equal (field fs ''note'') (field (own_fields other) ''note''))))"

definition Memo_prototype :: proto where
  "Memo_prototype =
     (bare 3)
       \<lparr>valueOf := Method (\<lambda>fs. Inr (Plain (Memo_toJS fs))),
        toString := Method (\<lambda>fs. Inr (Plain (JStr ''Memo''))),
        toJS := Method (\<lambda>fs. Inr (Memo_toJS fs)),
        toJSON := Method (\<lambda>fs. Inr (Memo_toJS fs)),
        equals := Method Memo_equals\<rparr>"

text \<open>The prototypes of the program that runs the checker on these classes.\<close>

definition prototypes :: protos where
  "prototypes p =
     (if p = 1 then Animal_prototype else if p = 3 then Memo_prototype else bare p)"

text \<open>
  The same class with a \<open>fromJS\<close> that flips a flag of the object it is given:
  \<^verbatim>\<open>
  static fromJS(js) {
    if (js === null || typeof js !== 'object' || Array.isArray(js))
      throw new TypeError('an object is expected');
    js.seen = !js.seen;
    return new Memo({ id: js.id, note: js.note });
  }
  \<close>
\<close>

fun Flipping_fromJS :: "js \<Rightarrow> js \<Rightarrow> (js \<times> val) result" where
  "Flipping_fromJS (JObj kvs) ctx =
     Inr (JObj (if map_of kvs ''seen'' = None
                then kvs @ [(''seen'', JBool (\<not> truthy (field kvs ''seen'')))]
                else map (\<lambda>kv. if fst kv = ''seen''
                                then (''seen'', JBool (\<not> truthy (field kvs ''seen''))) else kv) kvs),
          Inst 3 [(''id'', field kvs ''id''), (''note'', field kvs ''note'')])"
| "Flipping_fromJS v ctx = Inl (TypeError ''an object is expected'')"

definition Flipping :: class_fn where
  "Flipping = Memo\<lparr>fromJS := Method Flipping_fromJS\<rparr>"

text \<open>
  The same class with a \<open>fromJS\<close> that writes a default into the object it is given,
  after it has built the instance, when that object has a \<open>note\<close> of its own that is
  \<open>undefined\<close>:
  \<^verbatim>\<open>
  static fromJS(js) {
    const made = new Memo({ id: js.id, note: js.note });
    if (Object.prototype.hasOwnProperty.call(js, 'note') && js.note === undefined)
      js.note = 'none';
    return made;
  }
  \<close>
\<close>

fun Defaulting_fromJS :: "js \<Rightarrow> js \<Rightarrow> (js \<times> val) result" where
  "Defaulting_fromJS JUndefined ctx = Inl (TypeError ''Cannot read property id of undefined'')"
| "Defaulting_fromJS JNull ctx = Inl (TypeError ''Cannot read property id of null'')"
| "Defaulting_fromJS (JObj kvs) ctx =
     Inr (if map_of kvs ''note'' = Some JUndefined
          then JObj (map (\<lambda>kv. if fst kv = ''note'' then (''note'', JStr ''none'') else kv) kvs)
          else JObj kvs,
          Inst 3 [(''id'', field kvs ''id''), (''note'', field kvs ''note'')])"
| "Defaulting_fromJS v ctx = Inr (v, Inst 3 [(''id'', JUndefined), (''note'', JUndefined)])"

definition Defaulting :: class_fn where
  "Defaulting = Memo\<lparr>fromJS := Method Defaulting_fromJS\<rparr>"

text \<open>
  The same class with a constructor that refuses to be called directly:
  \<^verbatim>\<open>constructor(p) { throw new Error('use Memo.fromJS'); }\<close>
  (\<open>fromJS\<close> builds its instance without it).
\<close>

definition Sealed :: class_fn where
  "Sealed = Memo\<lparr>new := (\<lambda>v. Inl (Error ''use Memo.fromJS''))\<rparr>"

text \<open>
  The prototypes of a program in which \<open>equals\<close> of that class compares the fields
  only:
  \<^verbatim>\<open>equals(other) { return other != null && this.id === other.id && this.note === other.note; }\<close>
\<close>

definition Duck_equals :: "fields \<Rightarrow> val \<Rightarrow> val result" where
  "Duck_equals fs other =
     Inr (Plain (JBool (other \<noteq> Plain JUndefined \<and> other \<noteq> Plain JNull
        \<and> strict_equal (field fs ''id'') (field (own_fields other) ''id'')
        \<and> strict_equal (field fs ''note'') (field (own_fields other) ''note''))))"

definition duck_prototypes :: protos where
  "duck_prototypes p =
     (if p = 3 then Memo_prototype\<lparr>equals := Method Duck_equals\<rparr> else prototypes p)"

text \<open>Two samples for these classes: \<open>{ id: 0, note: 'x' }\<close> and \<open>{ id: 1, note: undefined }\<close>.\<close>

definition memo0 :: js where
  "memo0 = JObj [(''id'', JNum 0), (''note'', JStr ''x'')]"

definition memo1 :: js where
  "memo1 = JObj [(''id'', JNum 1), (''note'', JUndefined)]"

text \<open>A third sample: \<open>{ id: 1, note: 'none' }\<close>.\<close>

definition memo2 :: js where
  "memo2 = JObj [(''id'', JNum 1), (''note'', JStr ''none'')]"

definition no_options :: TesterOptions where
  "no_options = \<lparr>newThrows = None, context' = JUndefined\<rparr>"

section \<open>What the samples are when a loop reads them\<close>

text \<open>
  Line 287 gives \<open>objects[0]\<close> itself to \<open>fromJS\<close>, before the loops: they read the
  array as that call left it.
\<close>

definition probed :: "class_fn \<Rightarrow> TesterOptions \<Rightarrow> js list \<Rightarrow> js list" where
  "probed C options objs =
     (case objs of
        [] \<Rightarrow> []
      | x # xs \<Rightarrow>
          (case call_fromJS C x (context' options) of
             Inl e \<Rightarrow> objs
           | Inr called \<Rightarrow> fst called # xs))"

text \<open>
  Lines 383 to 392 give the elements of \<open>objects\<close> themselves to \<open>fromJS\<close>. \<open>leaves\<close> is
  what a call of \<open>fromJS\<close> leaves of its argument. \<open>after_iteration\<close> is the array after
  the iteration \<open>j\<close> of the outer loop, all of whose calls return: line 384 gives
  \<open>objects[j]\<close> to \<open>fromJS\<close>, then line 386 gives it every \<open>objects[k]\<close> from \<open>k = j\<close> on
  (for \<open>j\<close> past the end there is no such iteration, and the array is as it was).
  \<open>objects_at\<close> is the array as the iteration \<open>j\<close> finds it, that is after the iterations
  \<open>0\<close> to \<open>j - 1\<close>. That the loops of the checker leave this array is proved below
  (\<open>equality_outer_result\<close>).
\<close>

definition leaves :: "class_fn \<Rightarrow> js \<Rightarrow> js \<Rightarrow> js" where
  "leaves C ctx x = (case call_fromJS C x ctx of Inl e \<Rightarrow> x | Inr called \<Rightarrow> fst called)"

definition after_iteration :: "class_fn \<Rightarrow> js \<Rightarrow> js list \<Rightarrow> nat \<Rightarrow> js list" where
  "after_iteration C ctx objects j =
     (let objects1 = objects[j := leaves C ctx (objects ! j)]
      in take j objects1 @ map (leaves C ctx) (drop j objects1))"

primrec objects_at :: "class_fn \<Rightarrow> js \<Rightarrow> js list \<Rightarrow> nat \<Rightarrow> js list" where
  "objects_at C ctx objects 0 = objects"
| "objects_at C ctx objects (Suc j) = after_iteration C ctx (objects_at C ctx objects j) j"

section \<open>Properties\<close>

subsection \<open>Successful steps\<close>

lemma andThen_Inr_iff: "andThen m f = Inr y \<longleftrightarrow> (\<exists>x. m = Inr x \<and> f x = Inr y)"
  by (cases m) (simp_all add: andThen_def)

lemma expect_Inr_iff: "expect ok msg e = Inr u \<longleftrightarrow> ok"
  by (simp add: expect_def)

lemma expect_instanceOf_Inr_iff:
  "expect_instanceOf ps v msg C = Inr parts \<longleftrightarrow>
   v = Inst (fst parts) (snd parts) \<and> instanceOf ps v C"
  by (cases v; cases parts) auto

lemma expect_throw_Inr_iff: "expect_throw r msg = Inr u \<longleftrightarrow> (\<exists>e. r = Inl e \<and> isError e)"
  by (cases r) (simp_all add: expect_throw_def expect_def)

text \<open>Everything a sample's check has established when it returns.\<close>

lemma check_object_Inr:
  assumes "check_object ps C options className instanceName objects i = Inr ()"
  shows "\<exists>copy called p fs s t instValueOf.
    JSON_parse (stringify (objects ! i)) = Inr copy \<and>
    call_fromJS C copy (context' options) = Inr called \<and>
    deep_equal (fst called) copy \<and>
    snd called = Inst p fs \<and>
    instanceOf ps (Inst p fs) C \<and>
    call_toString ps p fs = Inr s \<and> isString s \<and>
    call_equals ps (Inst p fs) (Plain JNull) = Inr (Plain (JBool False)) \<and>
    call_equals ps (Inst p fs) (Plain (JArr [])) = Inr (Plain (JBool False)) \<and>
    call_toJS ps (Inst p fs) = Inr t \<and> deep_equal t (objects ! i) \<and>
    call_valueOf ps p fs = Inr instValueOf \<and>
    call_equals ps (Inst p fs) instValueOf = Inr (Plain (JBool False)) \<and>
    call_equals ps (Inst p fs) (Plain (JObj (lazyCopy fs (for_in ps p fs)))) =
      Inr (Plain (JBool False)) \<and>
    (if newThrows options = Some True then \<exists>e. new C instValueOf = Inl e \<and> isError e
     else \<exists>instValueCopy t1. new C instValueOf = Inr instValueCopy \<and>
            call_equals ps (Inst p fs) instValueCopy = Inr (Plain (JBool True)) \<and>
            call_toJS ps instValueCopy = Inr t1 \<and> deep_equal t1 t) \<and>
    (\<exists>instJSON parsed called2 t1.
       JSON_stringify ps (Inst p fs) = Inr instJSON \<and>
       JSON_parse instJSON = Inr parsed \<and>
       call_fromJS C parsed (context' options) = Inr called2 \<and>
       call_equals ps (Inst p fs) (snd called2) = Inr (Plain (JBool True)) \<and>
       call_toJS ps (snd called2) = Inr t1 \<and> deep_equal t1 t)"
proof -
  note iffs = andThen_Inr_iff expect_Inr_iff expect_instanceOf_Inr_iff
  from assms [unfolded check_object_def Let_def iffs]
  obtain copy copy2 called parts s r1 r2 t instValueOf r3 r4 u instJSON parsed called2 r5 t1 t2 where
    a: "JSON_parse (stringify (objects ! i)) = Inr copy"
       "JSON_parse (stringify (objects ! i)) = Inr copy2"
       "call_fromJS C copy (context' options) = Inr called"
       "deep_equal (fst called) copy2"
       "snd called = Inst (fst parts) (snd parts)"
       "instanceOf ps (snd called) C"
       "call_toString ps (fst parts) (snd parts) = Inr s" "isString s"
       "call_equals ps (Inst (fst parts) (snd parts)) (Plain JNull) = Inr r1"
       "r1 = Plain (JBool False)"
       "call_equals ps (Inst (fst parts) (snd parts)) (Plain (JArr [])) = Inr r2"
       "r2 = Plain (JBool False)"
       "call_toJS ps (Inst (fst parts) (snd parts)) = Inr t" "deep_equal t (objects ! i)"
       "call_valueOf ps (fst parts) (snd parts) = Inr instValueOf"
       "call_equals ps (Inst (fst parts) (snd parts)) instValueOf = Inr r3"
       "r3 = Plain (JBool False)"
       "call_equals ps (Inst (fst parts) (snd parts))
          (Plain (JObj (lazyCopy (snd parts) (for_in ps (fst parts) (snd parts))))) = Inr r4"
       "r4 = Plain (JBool False)" and
    b: "(if newThrows options = Some True then
           expect_throw (new C instValueOf)
             (''new '' @ className @ '' did not throw as indicated '' @ in_object i)
         else
           andThen (new C instValueOf) (\<lambda>instValueCopy.
           andThen (call_equals ps (Inst (fst parts) (snd parts)) instValueCopy) (\<lambda>r.
           andThen (expect (r = Plain (JBool True))
                      (''new '' @ className @ ''().toJS() is not equal to the original '' @ in_object i)
                      (ToEqual r True)) (\<lambda>u.
           andThen (call_toJS ps instValueCopy) (\<lambda>t1.
           andThen (call_toJS ps (Inst (fst parts) (snd parts))) (\<lambda>t2.
           expect (deep_equal t1 t2)
             (''new '' @ className @ ''('' @ instanceName @ ''.valueOf()).toJS() returned something bad '' @ in_object i)
             (ToDeepEqual t1 t2))))))) = Inr u" and
    c: "JSON_stringify ps (Inst (fst parts) (snd parts)) = Inr instJSON"
       "JSON_parse instJSON = Inr parsed"
       "call_fromJS C parsed (context' options) = Inr called2"
       "call_equals ps (Inst (fst parts) (snd parts)) (snd called2) = Inr r5"
       "r5 = Plain (JBool True)"
       "call_toJS ps (snd called2) = Inr t1"
       "call_toJS ps (Inst (fst parts) (snd parts)) = Inr t2" "deep_equal t1 t2"
    by blast
  have d: "if newThrows options = Some True then \<exists>e. new C instValueOf = Inl e \<and> isError e
     else \<exists>instValueCopy t1. new C instValueOf = Inr instValueCopy \<and>
            call_equals ps (Inst (fst parts) (snd parts)) instValueCopy = Inr (Plain (JBool True)) \<and>
            call_toJS ps instValueCopy = Inr t1 \<and> deep_equal t1 t"
  proof (cases "newThrows options = Some True")
    case True
    with b show ?thesis by (simp add: expect_throw_Inr_iff)
  next
    case False
    with b a(13) show ?thesis
      by (auto simp add: iffs simp del: call_equals.simps call_toJS.simps)
  qed
  from c a(13) have e: "deep_equal t1 t" by simp
  from c e have g: "\<exists>instJSON parsed called2 t1.
       JSON_stringify ps (Inst (fst parts) (snd parts)) = Inr instJSON \<and>
       JSON_parse instJSON = Inr parsed \<and>
       call_fromJS C parsed (context' options) = Inr called2 \<and>
       call_equals ps (Inst (fst parts) (snd parts)) (snd called2) = Inr (Plain (JBool True)) \<and>
       call_toJS ps (snd called2) = Inr t1 \<and> deep_equal t1 t"
    by blast
  from a(1,2) have f: "copy2 = copy" by simp
  from a have h:
    "JSON_parse (stringify (objects ! i)) = Inr copy"
    "call_fromJS C copy (context' options) = Inr called"
    "deep_equal (fst called) copy"
    "snd called = Inst (fst parts) (snd parts)"
    "instanceOf ps (Inst (fst parts) (snd parts)) C"
    "call_toString ps (fst parts) (snd parts) = Inr s" "isString s"
    "call_equals ps (Inst (fst parts) (snd parts)) (Plain JNull) = Inr (Plain (JBool False))"
    "call_equals ps (Inst (fst parts) (snd parts)) (Plain (JArr [])) = Inr (Plain (JBool False))"
    "call_toJS ps (Inst (fst parts) (snd parts)) = Inr t" "deep_equal t (objects ! i)"
    "call_valueOf ps (fst parts) (snd parts) = Inr instValueOf"
    "call_equals ps (Inst (fst parts) (snd parts)) instValueOf = Inr (Plain (JBool False))"
    "call_equals ps (Inst (fst parts) (snd parts))
       (Plain (JObj (lazyCopy (snd parts) (for_in ps (fst parts) (snd parts))))) =
     Inr (Plain (JBool False))"
    unfolding f by (simp_all del: call_equals.simps call_toJS.simps instanceOf.simps)
  from h d g show ?thesis by blast
qed

lemma preserves_loop_Inr:
  "preserves_loop ps C options className instanceName objects i = Inr u \<Longrightarrow>
   i \<le> k \<Longrightarrow> k < length objects \<Longrightarrow>
   check_object ps C options className instanceName objects k = Inr ()"
proof (induction ps C options className instanceName objects i rule: preserves_loop.induct)
  case (1 ps C options className instanceName objects i)
  from "1.prems" have lt: "i < length objects" by simp
  from "1.prems"(1) lt have
    here: "check_object ps C options className instanceName objects i = Inr ()" and
    rest: "preserves_loop ps C options className instanceName objects (Suc i) = Inr u"
    by (simp_all add: preserves_loop.simps [of ps C options className instanceName objects i]
          split: sum.splits)
  show ?case
  proof (cases "k = i")
    case True
    with here show ?thesis by simp
  next
    case False
    with "1.prems" have "Suc i \<le> k" by simp
    from "1.IH" [OF lt here rest this "1.prems"(3)] show ?thesis .
  qed
qed

lemma returns_nonempty:
  assumes "testImmutableClass ps (Constructor C) (JArr objs) options = Inr final"
  shows "objs \<noteq> []"
  using assms by (simp add: testImmutableClass_def split: if_splits)

lemma returns_named:
  assumes "testImmutableClass ps (Constructor C) (JArr objs) options = Inr final"
  shows "name C \<noteq> []"
proof
  assume "name C = []"
  then have
    "testImmutableClass ps (Constructor C) (JArr objs) options =
       Inl (TypeError ''objects must be a non-empty array of js to test'') \<or>
     testImmutableClass ps (Constructor C) (JArr objs) options =
       Inl (Error ''Class must have a name of at least 1 letter'')"
    by (simp add: testImmutableClass_def)
  with assms show False by auto
qed

text \<open>A run that returns has passed the descriptors' check and both loops.\<close>

lemma testImmutableClass_Inr:
  assumes "testImmutableClass ps (Constructor C) (JArr objs) options = Inr final"
  shows "objs \<noteq> [] \<and> name C \<noteq> [] \<and> check_PROPERTIES C = Inr () \<and>
    preserves_loop ps C options (name C) (instance_name (name C)) (probed C options objs) 0 = Inr () \<and>
    equality_outer ps C (context' options) (probed C options objs) 0 = Inr final"
proof -
  note ne = returns_nonempty [OF assms] and nm = returns_named [OF assms]
  then obtain x xs where objs: "objs = x # xs" by (cases objs) auto
  from assms ne nm obtain called where
    c: "call_fromJS C (objs ! 0) (context' options) = Inr called" and
    p: "check_PROPERTIES C = Inr ()" and
    l: "preserves_loop ps C options (name C) (instance_name (name C)) (objs[0 := fst called]) 0 = Inr ()" and
    e: "equality_outer ps C (context' options) (objs[0 := fst called]) 0 = Inr final"
    unfolding testImmutableClass_def Let_def
    apply simp
    apply (unfold andThen_Inr_iff expect_Inr_iff)
    apply (elim exE conjE)
    by (rule that; simp)
  from c objs have "probed C options objs = objs[0 := fst called]"
    by (simp add: probed_def)
  with ne nm p l e show ?thesis by simp
qed

lemma length_probed: "length (probed C options objs) = length objs"
  by (cases objs) (auto simp: probed_def split: sum.splits)

lemma sample_checked:
  assumes "testImmutableClass ps (Constructor C) (JArr objs) options = Inr final"
    and "i < length objs"
  shows "check_object ps C options (name C) (instance_name (name C)) (probed C options objs) i = Inr ()"
  using assms(2) testImmutableClass_Inr [OF assms(1)] length_probed [of C options objs]
    preserves_loop_Inr [of ps C options _ _ _ 0 "()" i]
  by simp

subsection \<open>The copy of the own fields\<close>

lemma lazyCopy_append: "lazyCopy fs (ks @ ks') = lazyCopy fs ks @ lazyCopy fs ks'"
  by (induction ks) (auto split: option.splits)

lemma lazyCopy_not_own: "list_all (\<lambda>k. map_of fs k = None) ks \<Longrightarrow> lazyCopy fs ks = []"
  by (induction ks) (auto simp: hasOwnProp_def)

lemma lazyCopy_keys:
  "list_all (\<lambda>kv. map_of fs (fst kv) = Some (snd kv)) gs \<Longrightarrow> lazyCopy fs (map fst gs) = gs"
  by (induction gs) (auto simp: hasOwnProp_def)

lemma lazyCopy_for_in:
  assumes "distinct (map fst fs)"
  shows "lazyCopy fs (for_in ps p fs) = fs"
proof -
  from assms have "list_all (\<lambda>kv. map_of fs (fst kv) = Some (snd kv)) fs"
    by (auto simp: list_all_iff)
  then have a: "lazyCopy fs (map fst fs) = fs"
    by (rule lazyCopy_keys)
  have "list_all (\<lambda>k. map_of fs k = None) (filter (\<lambda>k. map_of fs k = None) (enumerable (ps p)))"
    by (simp add: list_all_iff)
  then have b: "lazyCopy fs (filter (\<lambda>k. map_of fs k = None) (enumerable (ps p))) = []"
    by (rule lazyCopy_not_own)
  from a b show ?thesis
    by (simp add: for_in_def lazyCopy_append)
qed

subsection \<open>The equality loops\<close>

lemma check_equality_Inr_iff:
  "check_equality ps j k objectJ objectK = Inr u \<longleftrightarrow>
   call_equals ps objectJ objectK = Inr (Plain (JBool (j = k)))"
  by (auto simp: check_equality_def andThen_Inr_iff expect_Inr_iff simp del: call_equals.simps)

lemma equality_inner_frame:
  "equality_inner ps C ctx j objectJ objects k = Inr final \<Longrightarrow> m < k \<Longrightarrow>
   final ! m = objects ! m"
proof (induction ps C ctx j objectJ objects k rule: equality_inner.induct)
  case (1 ps C ctx j objectJ objects k)
  show ?case
  proof (cases "k < length objects")
    case False
    with "1.prems" show ?thesis
      by (simp add: equality_inner.simps [of ps C ctx j objectJ objects k])
  next
    case True
    from "1.prems"(1) True obtain called where
      c: "call_fromJS C (objects ! k) ctx = Inr called" and
      e: "check_equality ps j k objectJ (snd called) = Inr ()" and
      r: "equality_inner ps C ctx j objectJ (objects[k := fst called]) (Suc k) = Inr final"
      by (simp add: equality_inner.simps [of ps C ctx j objectJ objects k] split: sum.splits)
    from "1.prems"(2) have "m < Suc k" by simp
    from "1.IH" [OF True c e r this] "1.prems"(2) show ?thesis by simp
  qed
qed

lemma equality_inner_calls:
  "equality_inner ps C ctx j objectJ objects k = Inr final \<Longrightarrow> k \<le> m \<Longrightarrow>
   m < length objects \<Longrightarrow>
   \<exists>after objectK.
     call_fromJS C (objects ! m) ctx = Inr (after, objectK) \<and>
     call_equals ps objectJ objectK = Inr (Plain (JBool (j = m))) \<and>
     final ! m = after"
proof (induction ps C ctx j objectJ objects k rule: equality_inner.induct)
  case (1 ps C ctx j objectJ objects k)
  from "1.prems" have lt: "k < length objects" by simp
  from "1.prems"(1) lt obtain called where
    c: "call_fromJS C (objects ! k) ctx = Inr called" and
    e: "check_equality ps j k objectJ (snd called) = Inr ()" and
    r: "equality_inner ps C ctx j objectJ (objects[k := fst called]) (Suc k) = Inr final"
    by (simp add: equality_inner.simps [of ps C ctx j objectJ objects k] split: sum.splits)
  show ?case
  proof (cases "m = k")
    case True
    from equality_inner_frame [OF r, of k] lt have "final ! k = fst called" by simp
    with c e True show ?thesis
      by (cases called) (auto simp: check_equality_Inr_iff simp del: call_equals.simps)
  next
    case False
    with "1.prems" have "Suc k \<le> m" "m < length (objects[k := fst called])" by simp_all
    from "1.IH" [OF lt c e r this] False show ?thesis by simp
  qed
qed

lemma equality_outer_step:
  assumes "equality_outer ps C ctx objects j = Inr final" and "j < length objects"
  obtains called objects' where
    "call_fromJS C (objects ! j) ctx = Inr called"
    "equality_inner ps C ctx j (snd called) (objects[j := fst called]) j = Inr objects'"
    "equality_outer ps C ctx objects' (Suc j) = Inr final"
  using assms
  by (simp add: equality_outer.simps [of ps C ctx objects j] split: sum.splits)

lemma equality_outer_length:
  "equality_outer ps C ctx objects j = Inr final \<Longrightarrow> length final = length objects"
proof (induction ps C ctx objects j rule: equality_outer.induct)
  case (1 ps C ctx objects j)
  show ?case
  proof (cases "j < length objects")
    case False
    with "1.prems" show ?thesis
      by (simp add: equality_outer.simps [of ps C ctx objects j])
  next
    case True
    from equality_outer_step [OF "1.prems" True] obtain called objects' where
      c: "call_fromJS C (objects ! j) ctx = Inr called" and
      i: "equality_inner ps C ctx j (snd called) (objects[j := fst called]) j = Inr objects'" and
      r: "equality_outer ps C ctx objects' (Suc j) = Inr final"
      by blast
    from "1.IH" [OF True c i r] equality_inner_length [OF i] show ?thesis by simp
  qed
qed

text \<open>
  The array while the loops run. The inner loop, started at \<open>k\<close>, gives every element
  from \<open>k\<close> on to \<open>fromJS\<close> and leaves the others; an iteration of the outer loop takes
  \<open>objects_at \<dots> j\<close> to \<open>objects_at \<dots> (j + 1)\<close>. So a run of the loops that returns has
  given \<open>fromJS\<close>, for every pair \<open>j \<le> k\<close>, the elements \<open>j\<close> and \<open>k\<close> of the array as the
  iteration \<open>j\<close> finds it, and returns the array after the last iteration.
\<close>

lemma leaves_Inr: "call_fromJS C x ctx = Inr (after, r) \<Longrightarrow> leaves C ctx x = after"
  by (simp add: leaves_def)

lemma length_after_iteration: "length (after_iteration C ctx objects j) = length objects"
  by (simp add: after_iteration_def Let_def)

lemma length_objects_at: "length (objects_at C ctx objects j) = length objects"
  by (induction j) (simp_all add: length_after_iteration)

lemma equality_inner_result:
  assumes run: "equality_inner ps C ctx j objectJ objects k = Inr final"
  shows "final = take k objects @ map (leaves C ctx) (drop k objects)"
proof (rule nth_equalityI)
  show "length final = length (take k objects @ map (leaves C ctx) (drop k objects))"
    using equality_inner_length [OF run] by simp
next
  fix m
  assume "m < length final"
  then have m: "m < length objects"
    by (simp add: equality_inner_length [OF run])
  show "final ! m = (take k objects @ map (leaves C ctx) (drop k objects)) ! m"
  proof (cases "m < k")
    case True
    with m equality_inner_frame [OF run True] show ?thesis
      by (simp add: nth_append)
  next
    case False
    then have km: "k \<le> m" by simp
    from equality_inner_calls [OF run km m] obtain after objectK where
      "call_fromJS C (objects ! m) ctx = Inr (after, objectK)" "final ! m = after"
      by blast
    with False km m show ?thesis
      by (simp add: nth_append leaves_Inr min_def)
  qed
qed

lemma equality_outer_iteration:
  assumes "call_fromJS C (objects ! j) ctx = Inr called"
    and "equality_inner ps C ctx j objectJ (objects[j := fst called]) j = Inr objects'"
  shows "objects' = after_iteration C ctx objects j"
proof -
  from assms(1) have "leaves C ctx (objects ! j) = fst called"
    by (simp add: leaves_def)
  with equality_inner_result [OF assms(2)] show ?thesis
    by (simp add: after_iteration_def Let_def)
qed

lemma equality_outer_pairs:
  "equality_outer ps C ctx objects j0 = Inr final \<Longrightarrow> objects = objects_at C ctx objs j0 \<Longrightarrow>
   j0 \<le> j \<Longrightarrow> j \<le> k \<Longrightarrow> k < length objects \<Longrightarrow>
   \<exists>after objectJ afterK objectK.
     call_fromJS C (objects_at C ctx objs j ! j) ctx = Inr (after, objectJ) \<and>
     call_fromJS C ((objects_at C ctx objs j)[j := after] ! k) ctx = Inr (afterK, objectK) \<and>
     call_equals ps objectJ objectK = Inr (Plain (JBool (j = k)))"
proof (induction ps C ctx objects j0 rule: equality_outer.induct)
  case (1 ps C ctx objects j0)
  from "1.prems" have lt: "j0 < length objects" by simp
  from equality_outer_step [OF "1.prems"(1) lt] obtain called objects' where
    c: "call_fromJS C (objects ! j0) ctx = Inr called" and
    i: "equality_inner ps C ctx j0 (snd called) (objects[j0 := fst called]) j0 = Inr objects'" and
    r: "equality_outer ps C ctx objects' (Suc j0) = Inr final"
    by blast
  have len: "length objects' = length objects"
    using equality_inner_length [OF i] by simp
  have next_state: "objects' = objects_at C ctx objs (Suc j0)"
    using equality_outer_iteration [OF c i] "1.prems"(2) by simp
  show ?case
  proof (cases "j = j0")
    case True
    from "1.prems" True have "j0 \<le> k" "k < length (objects[j0 := fst called])" by simp_all
    from equality_inner_calls [OF i this] obtain afterK objectK where
      k: "call_fromJS C (objects[j0 := fst called] ! k) ctx = Inr (afterK, objectK)"
      "call_equals ps (snd called) objectK = Inr (Plain (JBool (j0 = k)))"
      by blast
    from c have c': "call_fromJS C (objects ! j0) ctx = Inr (fst called, snd called)" by simp
    show ?thesis
      apply (rule exI [of _ "fst called"], rule exI [of _ "snd called"],
          rule exI [of _ afterK], rule exI [of _ objectK])
      using c' k True "1.prems"(2) by (simp del: call_equals.simps)
  next
    case False
    with "1.prems" have "Suc j0 \<le> j" "k < length objects'" by (simp_all add: len)
    from "1.IH" [OF lt c i r next_state this(1) "1.prems"(4) this(2)]
    show ?thesis .
  qed
qed

lemma equality_outer_result:
  "equality_outer ps C ctx objects j0 = Inr final \<Longrightarrow> objects = objects_at C ctx objs j0 \<Longrightarrow>
   j0 \<le> length objects \<Longrightarrow> final = objects_at C ctx objs (length objects)"
proof (induction ps C ctx objects j0 rule: equality_outer.induct)
  case (1 ps C ctx objects j0)
  show ?case
  proof (cases "j0 < length objects")
    case False
    with "1.prems"(3) have j0: "j0 = length objects" by simp
    from "1.prems"(1) False have "final = objects"
      by (simp add: equality_outer.simps [of ps C ctx objects j0])
    also note "1.prems"(2)
    finally show ?thesis
      by (simp only: j0 [symmetric])
  next
    case True
    from equality_outer_step [OF "1.prems"(1) True] obtain called objects' where
      c: "call_fromJS C (objects ! j0) ctx = Inr called" and
      i: "equality_inner ps C ctx j0 (snd called) (objects[j0 := fst called]) j0 = Inr objects'" and
      r: "equality_outer ps C ctx objects' (Suc j0) = Inr final"
      by blast
    have len: "length objects' = length objects"
      using equality_inner_length [OF i] by simp
    have next_state: "objects' = objects_at C ctx objs (Suc j0)"
      using equality_outer_iteration [OF c i] "1.prems"(2) by simp
    from True len have "Suc j0 \<le> length objects'" by simp
    from "1.IH" [OF True c i r next_state this] len show ?thesis by simp
  qed
qed

lemma after_iteration_unchanged:
  assumes "\<forall>x\<in>set objects. leaves C ctx x = x"
  shows "after_iteration C ctx objects j = objects"
proof -
  have a: "objects[j := leaves C ctx (objects ! j)] = objects"
  proof (cases "j < length objects")
    case True
    with assms have "leaves C ctx (objects ! j) = objects ! j" by simp
    then show ?thesis by simp
  next
    case False
    then show ?thesis by (simp add: list_update_beyond)
  qed
  have "map (leaves C ctx) (drop j objects) = drop j objects"
  proof (rule map_idI)
    fix x
    assume "x \<in> set (drop j objects)"
    then have "x \<in> set objects" by (rule in_set_dropD)
    with assms show "leaves C ctx x = x" by simp
  qed
  with a show ?thesis
    by (simp add: after_iteration_def Let_def)
qed

lemma objects_at_unchanged:
  assumes "\<forall>x\<in>set objects. leaves C ctx x = x"
  shows "objects_at C ctx objects j = objects"
  by (induction j) (simp_all add: after_iteration_unchanged [OF assms])

lemma leaves_unchanged:
  assumes "\<forall>x\<in>set objs. \<forall>a r. call_fromJS C x ctx = Inr (a, r) \<longrightarrow> a = x"
  shows "\<forall>x\<in>set objs. leaves C ctx x = x"
proof
  fix x
  assume x: "x \<in> set objs"
  show "leaves C ctx x = x"
  proof (cases "call_fromJS C x ctx")
    case (Inl e)
    then show ?thesis by (simp add: leaves_def)
  next
    case (Inr called)
    with assms x have "fst called = x" by (cases called) auto
    with Inr show ?thesis by (simp add: leaves_def)
  qed
qed

lemma probed_samples_unchanged:
  assumes "\<forall>x\<in>set objs. \<forall>a r. call_fromJS C x (context' options) = Inr (a, r) \<longrightarrow> a = x"
  shows "probed C options objs = objs"
proof (cases objs)
  case Nil
  then show ?thesis by (simp add: probed_def)
next
  case (Cons x xs)
  show ?thesis
  proof (cases "call_fromJS C x (context' options)")
    case (Inl e)
    with Cons show ?thesis by (simp add: probed_def)
  next
    case (Inr called)
    with assms Cons have "fst called = x" by (cases called) auto
    with Cons Inr show ?thesis by (simp add: probed_def)
  qed
qed

lemma objects_at_nth:
  "m < length objects \<Longrightarrow>
   objects_at C ctx objects j ! m =
     (if m < j then (leaves C ctx ^^ (m + 2)) (objects ! m) else (leaves C ctx ^^ j) (objects ! m))"
proof (induction j)
  case 0
  show ?case by simp
next
  case (Suc j)
  let ?s = "objects_at C ctx objects j"
  have len: "length ?s = length objects" by (rule length_objects_at)
  from Suc.prems len have m: "m < length ?s" by simp
  show ?case
  proof (cases "m < j")
    case True
    with m have "objects_at C ctx objects (Suc j) ! m = ?s ! m"
      by (simp add: after_iteration_def Let_def nth_append)
    with Suc True show ?thesis by simp
  next
    case False
    show ?thesis
    proof (cases "m = j")
      case True
      with m have "objects_at C ctx objects (Suc j) ! m = leaves C ctx (leaves C ctx (?s ! m))"
        by (simp add: after_iteration_def Let_def nth_append)
      with Suc True show ?thesis by simp
    next
      case neq: False
      with False have gt: "j < m" by simp
      with m have "objects_at C ctx objects (Suc j) ! m = leaves C ctx (?s ! m)"
        by (simp add: after_iteration_def Let_def nth_append)
      with Suc gt show ?thesis by simp
    qed
  qed
qed

text \<open>
  What stops the loops: \<open>fromJS\<close> raising, \<open>equals\<close> raising, or the assertion on the
  result of \<open>equals\<close> for a pair that the loops reach.
\<close>

lemma check_equality_Inl:
  assumes "check_equality ps j k a b = Inl e"
  shows "call_equals ps a b = Inl e \<or>
    (\<exists>r. r \<noteq> Plain (JBool (j = k)) \<and>
       e = AssertionError
             (''Equality of objects '' @ show_nat j @ '' and '' @ show_nat k @ '' was wrong'')
             (ToEqual r (j = k)))"
  using assms
  by (cases "call_equals ps a b")
    (auto simp: check_equality_def andThen_def expect_def split: if_splits simp del: call_equals.simps)

lemma equality_inner_Inl:
  "equality_inner ps C ctx j objectJ objects k = Inl e \<Longrightarrow>
   (\<exists>x. call_fromJS C x ctx = Inl e) \<or> (\<exists>a b. call_equals ps a b = Inl e) \<or>
   (\<exists>k' r. k \<le> k' \<and> k' < length objects \<and> r \<noteq> Plain (JBool (j = k')) \<and>
      e = AssertionError
            (''Equality of objects '' @ show_nat j @ '' and '' @ show_nat k' @ '' was wrong'')
            (ToEqual r (j = k')))"
proof (induction ps C ctx j objectJ objects k rule: equality_inner.induct)
  case (1 ps C ctx j objectJ objects k)
  show ?case
  proof (cases "k < length objects")
    case False
    with "1.prems" show ?thesis
      by (simp add: equality_inner.simps [of ps C ctx j objectJ objects k])
  next
    case True
    show ?thesis
    proof (cases "call_fromJS C (objects ! k) ctx")
      case (Inl e')
      with "1.prems" True have "e' = e"
        by (simp add: equality_inner.simps [of ps C ctx j objectJ objects k])
      with Inl show ?thesis by blast
    next
      case (Inr called)
      show ?thesis
      proof (cases "check_equality ps j k objectJ (snd called)")
        case (Inl e')
        with "1.prems" True Inr have "e' = e"
          by (simp add: equality_inner.simps [of ps C ctx j objectJ objects k])
        with check_equality_Inl [OF Inl] have
          "call_equals ps objectJ (snd called) = Inl e \<or>
           (\<exists>r. r \<noteq> Plain (JBool (j = k)) \<and>
              e = AssertionError
                    (''Equality of objects '' @ show_nat j @ '' and '' @ show_nat k @ '' was wrong'')
                    (ToEqual r (j = k)))"
          by (simp del: call_equals.simps)
        then show ?thesis
        proof (elim disjE exE conjE)
          assume "call_equals ps objectJ (snd called) = Inl e"
          then show ?thesis by (intro disjI2 disjI1 exI)
        next
          fix r
          assume "r \<noteq> Plain (JBool (j = k))"
            "e = AssertionError
               (''Equality of objects '' @ show_nat j @ '' and '' @ show_nat k @ '' was wrong'')
               (ToEqual r (j = k))"
          with True have "k \<le> k \<and> k < length objects \<and> r \<noteq> Plain (JBool (j = k)) \<and>
            e = AssertionError
               (''Equality of objects '' @ show_nat j @ '' and '' @ show_nat k @ '' was wrong'')
               (ToEqual r (j = k))"
            by simp
          then show ?thesis by (intro disjI2 exI)
        qed
      next
        case c: (Inr u)
        with "1.prems" True Inr have
          "equality_inner ps C ctx j objectJ (objects[k := fst called]) (Suc k) = Inl e"
          by (simp add: equality_inner.simps [of ps C ctx j objectJ objects k])
        from c have "check_equality ps j k objectJ (snd called) = Inr ()" by simp
        from "1.IH" [OF True Inr this \<open>equality_inner ps C ctx j objectJ (objects[k := fst called]) (Suc k) = Inl e\<close>]
        show ?thesis
        proof (elim disjE exE conjE)
          fix x
          assume "call_fromJS C x ctx = Inl e"
          then show ?thesis by (intro disjI1 exI)
        next
          fix a b
          assume "call_equals ps a b = Inl e"
          then show ?thesis by (intro disjI2 disjI1 exI)
        next
          fix k' r
          assume "Suc k \<le> k'" "k' < length (objects[k := fst called])"
            "r \<noteq> Plain (JBool (j = k'))"
            "e = AssertionError
               (''Equality of objects '' @ show_nat j @ '' and '' @ show_nat k' @ '' was wrong'')
               (ToEqual r (j = k'))"
          then have "k \<le> k' \<and> k' < length objects \<and> r \<noteq> Plain (JBool (j = k')) \<and>
            e = AssertionError
               (''Equality of objects '' @ show_nat j @ '' and '' @ show_nat k' @ '' was wrong'')
               (ToEqual r (j = k'))"
            by simp
          then show ?thesis by (intro disjI2 exI)
        qed
      qed
    qed
  qed
qed

lemma equality_outer_Inl:
  "equality_outer ps C ctx objects j = Inl e \<Longrightarrow>
   (\<exists>x. call_fromJS C x ctx = Inl e) \<or> (\<exists>a b. call_equals ps a b = Inl e) \<or>
   (\<exists>j' k' r. j \<le> j' \<and> j' \<le> k' \<and> k' < length objects \<and> r \<noteq> Plain (JBool (j' = k')) \<and>
      e = AssertionError
            (''Equality of objects '' @ show_nat j' @ '' and '' @ show_nat k' @ '' was wrong'')
            (ToEqual r (j' = k')))"
proof (induction ps C ctx objects j rule: equality_outer.induct)
  case (1 ps C ctx objects j)
  show ?case
  proof (cases "j < length objects")
    case False
    with "1.prems" show ?thesis
      by (simp add: equality_outer.simps [of ps C ctx objects j])
  next
    case True
    show ?thesis
    proof (cases "call_fromJS C (objects ! j) ctx")
      case (Inl e')
      with "1.prems" True have "e' = e"
        by (simp add: equality_outer.simps [of ps C ctx objects j])
      with Inl show ?thesis by blast
    next
      case (Inr called)
      show ?thesis
      proof (cases "equality_inner ps C ctx j (snd called) (objects[j := fst called]) j")
        case (Inl e')
        with "1.prems" True Inr have "e' = e"
          by (simp add: equality_outer.simps [of ps C ctx objects j])
        with Inl have
          "equality_inner ps C ctx j (snd called) (objects[j := fst called]) j = Inl e"
          by simp
        from equality_inner_Inl [OF this] show ?thesis
        proof (elim disjE exE conjE)
          fix x
          assume "call_fromJS C x ctx = Inl e"
          then show ?thesis by (intro disjI1 exI)
        next
          fix a b
          assume "call_equals ps a b = Inl e"
          then show ?thesis by (intro disjI2 disjI1 exI)
        next
          fix k' r
          assume "j \<le> k'" "k' < length (objects[j := fst called])"
            "r \<noteq> Plain (JBool (j = k'))"
            "e = AssertionError
               (''Equality of objects '' @ show_nat j @ '' and '' @ show_nat k' @ '' was wrong'')
               (ToEqual r (j = k'))"
          then have "j \<le> j \<and> j \<le> k' \<and> k' < length objects \<and> r \<noteq> Plain (JBool (j = k')) \<and>
            e = AssertionError
               (''Equality of objects '' @ show_nat j @ '' and '' @ show_nat k' @ '' was wrong'')
               (ToEqual r (j = k'))"
            by simp
          then show ?thesis by (intro disjI2 exI)
        qed
      next
        case i: (Inr objects')
        with "1.prems" True Inr have "equality_outer ps C ctx objects' (Suc j) = Inl e"
          by (simp add: equality_outer.simps [of ps C ctx objects j])
        from "1.IH" [OF True Inr i this] show ?thesis
        proof (elim disjE exE conjE)
          fix x
          assume "call_fromJS C x ctx = Inl e"
          then show ?thesis by (intro disjI1 exI)
        next
          fix a b
          assume "call_equals ps a b = Inl e"
          then show ?thesis by (intro disjI2 disjI1 exI)
        next
          fix j' k' r
          assume "Suc j \<le> j'" "j' \<le> k'" "k' < length objects'"
            "r \<noteq> Plain (JBool (j' = k'))"
            "e = AssertionError
               (''Equality of objects '' @ show_nat j' @ '' and '' @ show_nat k' @ '' was wrong'')
               (ToEqual r (j' = k'))"
          with equality_inner_length [OF i]
          have "j \<le> j' \<and> j' \<le> k' \<and> k' < length objects \<and> r \<noteq> Plain (JBool (j' = k')) \<and>
            e = AssertionError
               (''Equality of objects '' @ show_nat j' @ '' and '' @ show_nat k' @ '' was wrong'')
               (ToEqual r (j' = k'))"
            by simp
          then show ?thesis by (intro disjI2 exI)
        qed
      qed
    qed
  qed
qed


text \<open>\<open>Animal.fromJS\<close> leaves its argument as it is.\<close>

lemma Animal_leaves_unchanged:
  "\<forall>x a r. call_fromJS Animal x ctx = Inr (a, r) \<longrightarrow> a = x"
proof (intro allI impI)
  fix x a r
  assume "call_fromJS Animal x ctx = Inr (a, r)"
  then show "a = x"
    by (cases x) (auto simp: call_fromJS_def Animal_def)
qed

text \<open>A run on two equal samples stops at the pair \<open>(0, 1)\<close>.\<close>

lemma rejects_equal_samples:
  "testImmutableClass prototypes (Constructor Animal) (JArr [JStr ''Koala'', JStr ''Koala''])
     no_options =
   Inl (AssertionError ''Equality of objects 0 and 1 was wrong''
          (ToEqual (Plain (JBool True)) False))"
  by code_simp

subsection \<open>The cases of the test file\<close>

text \<open>
  Lines 167 to 195: the checker accepts \<open>Animal\<close>, reports the sample \<open>#Cat\<close> with the
  message the test expects, and refuses \<open>AnimalNoFromJS\<close>.
\<close>

lemma works_for_Animal:
  "testImmutableClass prototypes (Constructor Animal)
     (JArr [JStr ''Koala'', JStr ''Snake'', JStr ''Dog'', JStr ''Cat'']) no_options =
   Inr [JStr ''Koala'', JStr ''Snake'', JStr ''Dog'', JStr ''Cat'']"
  by code_simp

lemma fails_when_given_non_fixed_point_js:
  "testImmutableClass prototypes (Constructor Animal)
     (JArr [JStr ''Koala'', JStr ''Snake'', JStr ''Dog'', JStr ''#Cat'']) no_options =
   Inl (AssertionError
          ''Animal.fromJS(obj).toJS() was not a fixed point (did not deep equal obj) [in object 3]''
          (ToDeepEqual (JStr ''Cat'') (JStr ''#Cat'')))"
  by code_simp

lemma rejects_AnimalNoFromJS:
  "testImmutableClass prototypes (Constructor AnimalNoFromJS)
     (JArr [JStr ''Koala'', JStr ''Snake'', JStr ''Dog'']) no_options =
   Inl (AssertionError ''AnimalNoFromJS.fromJS should exist'' (ToBeA ''function''))"
  by code_simp

subsection \<open>The claims\<close>

text \<open>
  C1. For every sample index \<open>i\<close>, \<open>testImmutableClass\<close> asserts the fixed-point law:
  \<open>ClassFn.fromJS\<close> applied to a copy of \<open>objects[i]\<close>, with the context, yields an
  instance whose \<open>toJS()\<close> deep-equals \<open>objects[i]\<close>. First part: a run that returns
  has found this for every sample. Second part: when the check of sample \<open>i\<close> reaches
  the assertion (the earlier steps of lines 309 to 334 went through) and \<open>toJS()\<close>
  does not deep-equal \<open>objects[i]\<close>, the check raises chai's error whose message names
  the fixed-point rule and \<open>[in object i]\<close>, and which carries the actual and the
  expected value.
\<close>

theorem fixed_point_asserted:
  "(testImmutableClass ps (Constructor C) (JArr objs) options = Inr final \<longrightarrow>
      (\<forall>i<length objs. \<exists>copy after inst t.
         JSON_parse (stringify (probed C options objs ! i)) = Inr copy \<and>
         call_fromJS C copy (context' options) = Inr (after, inst) \<and>
         call_toJS ps inst = Inr t \<and>
         deep_equal t (probed C options objs ! i))) \<and>
   (JSON_parse (stringify (objects ! i)) = Inr copy \<longrightarrow>
    call_fromJS C copy (context' options) = Inr (after, Inst p fs) \<longrightarrow>
    deep_equal after copy \<longrightarrow>
    instanceOf ps (Inst p fs) C \<longrightarrow>
    call_toString ps p fs = Inr s \<longrightarrow> isString s \<longrightarrow>
    call_equals ps (Inst p fs) (Plain JNull) = Inr (Plain (JBool False)) \<longrightarrow>
    call_equals ps (Inst p fs) (Plain (JArr [])) = Inr (Plain (JBool False)) \<longrightarrow>
    call_toJS ps (Inst p fs) = Inr t \<longrightarrow>
    \<not> deep_equal t (objects ! i) \<longrightarrow>
    check_object ps C options className instanceName objects i =
      Inl (AssertionError
             (className @ ''.fromJS(obj).toJS() was not a fixed point (did not deep equal obj) '' @
              ''[in object '' @ show_nat i @ '']'')
             (ToDeepEqual t (objects ! i))))"
proof (intro conjI impI allI)
  fix i
  assume run: "testImmutableClass ps (Constructor C) (JArr objs) options = Inr final"
    and i: "i < length objs"
  from check_object_Inr [OF sample_checked [OF run i]]
  obtain copy called p fs t where
    "JSON_parse (stringify (probed C options objs ! i)) = Inr copy"
    "call_fromJS C copy (context' options) = Inr called"
    "snd called = Inst p fs"
    "call_toJS ps (Inst p fs) = Inr t" "deep_equal t (probed C options objs ! i)"
    by blast
  then show "\<exists>copy after inst t.
         JSON_parse (stringify (probed C options objs ! i)) = Inr copy \<and>
         call_fromJS C copy (context' options) = Inr (after, inst) \<and>
         call_toJS ps inst = Inr t \<and>
         deep_equal t (probed C options objs ! i)"
    by (cases called) auto
next
  assume "JSON_parse (stringify (objects ! i)) = Inr copy"
    "call_fromJS C copy (context' options) = Inr (after, Inst p fs)"
    "deep_equal after copy"
    "instanceOf ps (Inst p fs) C"
    "call_toString ps p fs = Inr s" "isString s"
    "call_equals ps (Inst p fs) (Plain JNull) = Inr (Plain (JBool False))"
    "call_equals ps (Inst p fs) (Plain (JArr [])) = Inr (Plain (JBool False))"
    "call_toJS ps (Inst p fs) = Inr t"
    "\<not> deep_equal t (objects ! i)"
  then show "check_object ps C options className instanceName objects i =
      Inl (AssertionError
             (className @ ''.fromJS(obj).toJS() was not a fixed point (did not deep equal obj) '' @
              ''[in object '' @ show_nat i @ '']'')
             (ToDeepEqual t (objects ! i)))"
    unfolding check_object_def Let_def in_object_def
    by (simp add: andThen_def expect_def del: call_equals.simps call_toJS.simps instanceOf.simps)
qed

theorem fixed_point_asserted_witness:
  "testImmutableClass prototypes (Constructor Animal) (JArr [JStr ''Koala'', JStr ''Snake''])
     no_options = Inr [JStr ''Koala'', JStr ''Snake''] \<and>
   (\<exists>copy after inst t.
      JSON_parse (stringify (probed Animal no_options [JStr ''Koala'', JStr ''Snake''] ! 1)) = Inr copy \<and>
      call_fromJS Animal copy (context' no_options) = Inr (after, inst) \<and>
      call_toJS prototypes inst = Inr t \<and>
      deep_equal t (probed Animal no_options [JStr ''Koala'', JStr ''Snake''] ! 1)) \<and>
   \<not> deep_equal (JStr ''Cat'') (JStr ''#Cat'') \<and>
   check_object prototypes Animal no_options ''Animal'' ''animal''
     [JStr ''Koala'', JStr ''#Cat''] 1 =
     Inl (AssertionError
            ''Animal.fromJS(obj).toJS() was not a fixed point (did not deep equal obj) [in object 1]''
            (ToDeepEqual (JStr ''Cat'') (JStr ''#Cat'')))"
proof -
  have run:
    "testImmutableClass prototypes (Constructor Animal) (JArr [JStr ''Koala'', JStr ''Snake''])
       no_options = Inr [JStr ''Koala'', JStr ''Snake'']"
    by code_simp
  have h:
    "JSON_parse (stringify ([JStr ''Koala'', JStr ''#Cat''] ! 1)) = Inr (JStr ''#Cat'')"
    "call_fromJS Animal (JStr ''#Cat'') (context' no_options) =
       Inr (JStr ''#Cat'', Inst 1 [(''name'', JStr ''Cat'')])"
    "deep_equal (JStr ''#Cat'') (JStr ''#Cat'')"
    "instanceOf prototypes (Inst 1 [(''name'', JStr ''Cat'')]) Animal"
    "call_toString prototypes 1 [(''name'', JStr ''Cat'')] = Inr (Plain (JStr ''Cat''))"
    "isString (Plain (JStr ''Cat''))"
    "call_equals prototypes (Inst 1 [(''name'', JStr ''Cat'')]) (Plain JNull) =
       Inr (Plain (JBool False))"
    "call_equals prototypes (Inst 1 [(''name'', JStr ''Cat'')]) (Plain (JArr [])) =
       Inr (Plain (JBool False))"
    "call_toJS prototypes (Inst 1 [(''name'', JStr ''Cat'')]) = Inr (JStr ''Cat'')"
    "\<not> deep_equal (JStr ''Cat'') ([JStr ''Koala'', JStr ''#Cat''] ! 1)"
    by code_simp+
  have one: "show_nat (Suc 0) = ''1''"
    by code_simp
  from fixed_point_asserted
    [where ps = prototypes and C = Animal and objs = "[JStr ''Koala'', JStr ''Snake'']"
       and options = no_options, THEN conjunct1, rule_format, OF run, of 1]
  have first: "\<exists>copy after inst t.
      JSON_parse (stringify (probed Animal no_options [JStr ''Koala'', JStr ''Snake''] ! 1)) = Inr copy \<and>
      call_fromJS Animal copy (context' no_options) = Inr (after, inst) \<and>
      call_toJS prototypes inst = Inr t \<and>
      deep_equal t (probed Animal no_options [JStr ''Koala'', JStr ''Snake''] ! 1)"
    by simp
  from fixed_point_asserted
    [where ps = prototypes and C = Animal and options = no_options
       and objects = "[JStr ''Koala'', JStr ''#Cat'']" and i = 1
       and className = "''Animal''" and instanceName = "''animal''",
     THEN conjunct2, rule_format, OF h]
  have second:
    "check_object prototypes Animal no_options ''Animal'' ''animal''
       [JStr ''Koala'', JStr ''#Cat''] 1 =
     Inl (AssertionError
            ''Animal.fromJS(obj).toJS() was not a fixed point (did not deep equal obj) [in object 1]''
            (ToDeepEqual (JStr ''Cat'') (JStr ''#Cat'')))"
    by (simp add: one)
  from run first second show ?thesis by simp
qed

text \<open>
  C3. For every sample index \<open>i\<close>, \<open>testImmutableClass\<close> writes \<open>objects[i]\<close> as JSON
  text and parses the text twice, before it calls \<open>fromJS\<close>; it calls \<open>fromJS\<close> on the
  first copy, with the context, and asserts that what the first copy holds after the
  call deep-equals the second copy. First part: a run that returns has found this for
  every sample. Second part: when \<open>fromJS\<close> leaves its argument not deep-equal to the
  untouched copy, the check of the sample raises the error that says \<open>fromJS\<close>
  modified its input; no earlier step of the check can fail in its place.
\<close>

theorem input_not_modified:
  "(testImmutableClass ps (Constructor C) (JArr objs) options = Inr final \<longrightarrow>
      (\<forall>i<length objs. \<exists>copy after inst.
         JSON_parse (stringify (probed C options objs ! i)) = Inr copy \<and>
         call_fromJS C copy (context' options) = Inr (after, inst) \<and>
         deep_equal after copy)) \<and>
   (JSON_parse (stringify (objects ! i)) = Inr copy \<longrightarrow>
    call_fromJS C copy (context' options) = Inr (after, inst) \<longrightarrow>
    \<not> deep_equal after copy \<longrightarrow>
    check_object ps C options className instanceName objects i =
      Inl (AssertionError (className @ ''.fromJS function modified its input :-('')
             (ToDeepEqual after copy)))"
proof (intro conjI impI allI)
  fix i
  assume run: "testImmutableClass ps (Constructor C) (JArr objs) options = Inr final"
    and i: "i < length objs"
  from check_object_Inr [OF sample_checked [OF run i]]
  obtain copy called where
    "JSON_parse (stringify (probed C options objs ! i)) = Inr copy"
    "call_fromJS C copy (context' options) = Inr called"
    "deep_equal (fst called) copy"
    by blast
  then show "\<exists>copy after inst.
         JSON_parse (stringify (probed C options objs ! i)) = Inr copy \<and>
         call_fromJS C copy (context' options) = Inr (after, inst) \<and>
         deep_equal after copy"
    by (cases called) auto
next
  assume "JSON_parse (stringify (objects ! i)) = Inr copy"
    "call_fromJS C copy (context' options) = Inr (after, inst)"
    "\<not> deep_equal after copy"
  then show "check_object ps C options className instanceName objects i =
      Inl (AssertionError (className @ ''.fromJS function modified its input :-('')
             (ToDeepEqual after copy))"
    unfolding check_object_def Let_def
    by (simp add: andThen_def expect_def)
qed

theorem input_not_modified_witness:
  "testImmutableClass prototypes (Constructor Animal) (JArr [JStr ''Koala'', JStr ''Snake''])
     no_options = Inr [JStr ''Koala'', JStr ''Snake''] \<and>
   (\<exists>copy after inst.
      JSON_parse (stringify (probed Animal no_options [JStr ''Koala'', JStr ''Snake''] ! 1)) = Inr copy \<and>
      call_fromJS Animal copy (context' no_options) = Inr (after, inst) \<and>
      deep_equal after copy) \<and>
   call_fromJS Flipping memo0 (context' no_options) =
     Inr (JObj [(''id'', JNum 0), (''note'', JStr ''x''), (''seen'', JBool True)],
          Inst 3 [(''id'', JNum 0), (''note'', JStr ''x'')]) \<and>
   check_object prototypes Flipping no_options ''Memo'' ''memo'' [memo0, memo1] 0 =
     Inl (AssertionError ''Memo.fromJS function modified its input :-(''
            (ToDeepEqual (JObj [(''id'', JNum 0), (''note'', JStr ''x''), (''seen'', JBool True)])
               memo0))"
proof -
  have run:
    "testImmutableClass prototypes (Constructor Animal) (JArr [JStr ''Koala'', JStr ''Snake''])
       no_options = Inr [JStr ''Koala'', JStr ''Snake'']"
    by code_simp
  have h:
    "JSON_parse (stringify ([memo0, memo1] ! 0)) = Inr memo0"
    "call_fromJS Flipping memo0 (context' no_options) =
       Inr (JObj [(''id'', JNum 0), (''note'', JStr ''x''), (''seen'', JBool True)],
            Inst 3 [(''id'', JNum 0), (''note'', JStr ''x'')])"
    "\<not> deep_equal (JObj [(''id'', JNum 0), (''note'', JStr ''x''), (''seen'', JBool True)]) memo0"
    by code_simp+
  from input_not_modified
    [where ps = prototypes and C = Animal and objs = "[JStr ''Koala'', JStr ''Snake'']"
       and options = no_options, THEN conjunct1, rule_format, OF run, of 1]
  have first: "\<exists>copy after inst.
      JSON_parse (stringify (probed Animal no_options [JStr ''Koala'', JStr ''Snake''] ! 1)) = Inr copy \<and>
      call_fromJS Animal copy (context' no_options) = Inr (after, inst) \<and>
      deep_equal after copy"
    by simp
  from input_not_modified
    [where ps = prototypes and C = Flipping and options = no_options
       and objects = "[memo0, memo1]" and i = 0
       and className = "''Memo''" and instanceName = "''memo''",
     THEN conjunct2, rule_format, OF h]
  have second:
    "check_object prototypes Flipping no_options ''Memo'' ''memo'' [memo0, memo1] 0 =
     Inl (AssertionError ''Memo.fromJS function modified its input :-(''
            (ToDeepEqual (JObj [(''id'', JNum 0), (''note'', JStr ''x''), (''seen'', JBool True)])
               memo0))"
    by simp
  from run first h(2) second show ?thesis by blast
qed

text \<open>
  C4. For every sample index \<open>i\<close>: with \<open>newThrows\<close> set, \<open>testImmutableClass\<close> asserts
  that \<open>new ClassFn(inst.valueOf())\<close> raises; otherwise it constructs from
  \<open>inst.valueOf()\<close> and asserts that \<open>inst.equals\<close> of the result is \<open>true\<close> and that
  the result's \<open>toJS()\<close> deep-equals \<open>inst.toJS()\<close>. First part: a run that returns has
  found this for every sample. Second part: with \<open>newThrows\<close> set, a construction that
  returns makes the check of the sample raise.
\<close>

theorem direct_construction_checked:
  "(testImmutableClass ps (Constructor C) (JArr objs) options = Inr final \<longrightarrow>
      (\<forall>i<length objs. \<exists>copy after p fs v.
         JSON_parse (stringify (probed C options objs ! i)) = Inr copy \<and>
         call_fromJS C copy (context' options) = Inr (after, Inst p fs) \<and>
         call_valueOf ps p fs = Inr v \<and>
         (if newThrows options = Some True then \<exists>e. new C v = Inl e
          else \<exists>instValueCopy t1 t.
                 new C v = Inr instValueCopy \<and>
                 call_equals ps (Inst p fs) instValueCopy = Inr (Plain (JBool True)) \<and>
                 call_toJS ps instValueCopy = Inr t1 \<and>
                 call_toJS ps (Inst p fs) = Inr t \<and>
                 deep_equal t1 t))) \<and>
   (newThrows options = Some True \<longrightarrow>
    JSON_parse (stringify (objects ! i)) = Inr copy \<longrightarrow>
    call_fromJS C copy (context' options) = Inr (after, Inst p fs) \<longrightarrow>
    call_valueOf ps p fs = Inr v \<longrightarrow>
    new C v = Inr made \<longrightarrow>
    (\<exists>e. check_object ps C options className instanceName objects i = Inl e))"
proof (intro conjI impI allI)
  fix i
  assume run: "testImmutableClass ps (Constructor C) (JArr objs) options = Inr final"
    and i: "i < length objs"
  from check_object_Inr [OF sample_checked [OF run i]]
  obtain copy called p fs t v where
    a: "JSON_parse (stringify (probed C options objs ! i)) = Inr copy"
    "call_fromJS C copy (context' options) = Inr called"
    "snd called = Inst p fs"
    "call_toJS ps (Inst p fs) = Inr t"
    "call_valueOf ps p fs = Inr v" and
    b: "if newThrows options = Some True then \<exists>e. new C v = Inl e \<and> isError e
     else \<exists>instValueCopy t1. new C v = Inr instValueCopy \<and>
            call_equals ps (Inst p fs) instValueCopy = Inr (Plain (JBool True)) \<and>
            call_toJS ps instValueCopy = Inr t1 \<and> deep_equal t1 t"
    by blast
  from a(2,3) have c: "call_fromJS C copy (context' options) = Inr (fst called, Inst p fs)"
    by (cases called) simp
  from a(4) b have
    "if newThrows options = Some True then \<exists>e. new C v = Inl e
     else \<exists>instValueCopy t1 t.
            new C v = Inr instValueCopy \<and>
            call_equals ps (Inst p fs) instValueCopy = Inr (Plain (JBool True)) \<and>
            call_toJS ps instValueCopy = Inr t1 \<and>
            call_toJS ps (Inst p fs) = Inr t \<and>
            deep_equal t1 t"
    by (cases "newThrows options = Some True") (simp_all del: call_equals.simps call_toJS.simps, blast+)
  with a(1,5) c
  show "\<exists>copy after p fs v.
         JSON_parse (stringify (probed C options objs ! i)) = Inr copy \<and>
         call_fromJS C copy (context' options) = Inr (after, Inst p fs) \<and>
         call_valueOf ps p fs = Inr v \<and>
         (if newThrows options = Some True then \<exists>e. new C v = Inl e
          else \<exists>instValueCopy t1 t.
                 new C v = Inr instValueCopy \<and>
                 call_equals ps (Inst p fs) instValueCopy = Inr (Plain (JBool True)) \<and>
                 call_toJS ps instValueCopy = Inr t1 \<and>
                 call_toJS ps (Inst p fs) = Inr t \<and>
                 deep_equal t1 t)"
    by blast
next
  assume h: "newThrows options = Some True"
    "JSON_parse (stringify (objects ! i)) = Inr copy"
    "call_fromJS C copy (context' options) = Inr (after, Inst p fs)"
    "call_valueOf ps p fs = Inr v"
    "new C v = Inr made"
  show "\<exists>e. check_object ps C options className instanceName objects i = Inl e"
  proof (cases "check_object ps C options className instanceName objects i")
    case (Inl e)
    then show ?thesis by blast
  next
    case (Inr u)
    then have "check_object ps C options className instanceName objects i = Inr ()" by simp
    from check_object_Inr [OF this] h(1)
    obtain copy' called' p' fs' v' e where
      "JSON_parse (stringify (objects ! i)) = Inr copy'"
      "call_fromJS C copy' (context' options) = Inr called'"
      "snd called' = Inst p' fs'"
      "call_valueOf ps p' fs' = Inr v'"
      "new C v' = Inl e"
      by (auto simp del: call_equals.simps call_toJS.simps instanceOf.simps JSON_stringify.simps)
    with h show ?thesis by auto
  qed
qed

theorem direct_construction_checked_witness:
  "testImmutableClass prototypes (Constructor Animal) (JArr [JStr ''Koala'']) no_options =
     Inr [JStr ''Koala''] \<and>
   newThrows no_options \<noteq> Some True \<and>
   (\<exists>copy after p fs v instValueCopy t1 t.
      JSON_parse (stringify (probed Animal no_options [JStr ''Koala''] ! 0)) = Inr copy \<and>
      call_fromJS Animal copy (context' no_options) = Inr (after, Inst p fs) \<and>
      call_valueOf prototypes p fs = Inr v \<and>
      new Animal v = Inr instValueCopy \<and>
      call_equals prototypes (Inst p fs) instValueCopy = Inr (Plain (JBool True)) \<and>
      call_toJS prototypes instValueCopy = Inr t1 \<and>
      call_toJS prototypes (Inst p fs) = Inr t \<and>
      deep_equal t1 t) \<and>
   testImmutableClass prototypes (Constructor Sealed) (JArr [memo0])
     (no_options\<lparr>newThrows := Some True\<rparr>) = Inr [memo0] \<and>
   (\<exists>copy after p fs v e.
      JSON_parse (stringify (probed Sealed (no_options\<lparr>newThrows := Some True\<rparr>) [memo0] ! 0)) =
        Inr copy \<and>
      call_fromJS Sealed copy (context' (no_options\<lparr>newThrows := Some True\<rparr>)) =
        Inr (after, Inst p fs) \<and>
      call_valueOf prototypes p fs = Inr v \<and>
      new Sealed v = Inl e) \<and>
   new Animal (Plain (JStr ''Koala'')) = Inr (Inst 1 [(''name'', JStr ''Koala'')]) \<and>
   (\<exists>e. check_object prototypes Animal (no_options\<lparr>newThrows := Some True\<rparr>)
          ''Animal'' ''animal'' [JStr ''Koala''] 0 = Inl e)"
proof -
  have run1:
    "testImmutableClass prototypes (Constructor Animal) (JArr [JStr ''Koala'']) no_options =
       Inr [JStr ''Koala'']"
    by code_simp
  have run2:
    "testImmutableClass prototypes (Constructor Sealed) (JArr [memo0])
       (no_options\<lparr>newThrows := Some True\<rparr>) = Inr [memo0]"
    by code_simp
  have opts: "newThrows no_options \<noteq> Some True"
    "newThrows (no_options\<lparr>newThrows := Some True\<rparr>) = Some True"
    by (simp_all add: no_options_def)
  have h:
    "JSON_parse (stringify ([JStr ''Koala''] ! 0)) = Inr (JStr ''Koala'')"
    "call_fromJS Animal (JStr ''Koala'') (context' (no_options\<lparr>newThrows := Some True\<rparr>)) =
       Inr (JStr ''Koala'', Inst 1 [(''name'', JStr ''Koala'')])"
    "call_valueOf prototypes 1 [(''name'', JStr ''Koala'')] = Inr (Plain (JStr ''Koala''))"
    "new Animal (Plain (JStr ''Koala'')) = Inr (Inst 1 [(''name'', JStr ''Koala'')])"
    by code_simp+
  from direct_construction_checked
    [where ps = prototypes and C = Animal and objs = "[JStr ''Koala'']" and options = no_options,
     THEN conjunct1, rule_format, OF run1, of 0] opts(1)
  have first: "\<exists>copy after p fs v instValueCopy t1 t.
      JSON_parse (stringify (probed Animal no_options [JStr ''Koala''] ! 0)) = Inr copy \<and>
      call_fromJS Animal copy (context' no_options) = Inr (after, Inst p fs) \<and>
      call_valueOf prototypes p fs = Inr v \<and>
      new Animal v = Inr instValueCopy \<and>
      call_equals prototypes (Inst p fs) instValueCopy = Inr (Plain (JBool True)) \<and>
      call_toJS prototypes instValueCopy = Inr t1 \<and>
      call_toJS prototypes (Inst p fs) = Inr t \<and>
      deep_equal t1 t"
    by (simp del: call_equals.simps call_toJS.simps)
  from direct_construction_checked
    [where ps = prototypes and C = Sealed and objs = "[memo0]"
       and options = "no_options\<lparr>newThrows := Some True\<rparr>",
     THEN conjunct1, rule_format, OF run2, of 0] opts(2)
  have second: "\<exists>copy after p fs v e.
      JSON_parse (stringify (probed Sealed (no_options\<lparr>newThrows := Some True\<rparr>) [memo0] ! 0)) =
        Inr copy \<and>
      call_fromJS Sealed copy (context' (no_options\<lparr>newThrows := Some True\<rparr>)) =
        Inr (after, Inst p fs) \<and>
      call_valueOf prototypes p fs = Inr v \<and>
      new Sealed v = Inl e"
    by (simp del: call_equals.simps call_toJS.simps)
  from direct_construction_checked
    [where ps = prototypes and C = Animal and options = "no_options\<lparr>newThrows := Some True\<rparr>"
       and objects = "[JStr ''Koala'']" and i = 0
       and className = "''Animal''" and instanceName = "''animal''",
     THEN conjunct2, rule_format, OF opts(2) h]
  have third: "\<exists>e. check_object prototypes Animal (no_options\<lparr>newThrows := Some True\<rparr>)
          ''Animal'' ''animal'' [JStr ''Koala''] 0 = Inl e" .
  from run1 run2 opts(1) first second h(4) third show ?thesis by blast
qed

text \<open>
  C6. \<open>testImmutableClass\<close> checks its preconditions first and in this order: a
  \<open>ClassFn\<close> that is no function raises the \<open>TypeError\<close> that asks for a constructor
  function, whatever \<open>objects\<close> is; else an \<open>objects\<close> that is no non-empty array raises
  a \<open>TypeError\<close>, whatever the class is named; else an empty class name raises the error
  that asks for a name of at least 1 letter. The class's \<open>fromJS\<close> is any \<open>f\<close>: none of
  the three results depends on it.
\<close>

theorem preconditions_first:
  "testImmutableClass ps (NonFunction v) objects options =
     Inl (TypeError ''ClassFn must be a constructor function'') \<and>
   (\<not> isArray objects \<or> elements objects = [] \<longrightarrow>
    testImmutableClass ps (Constructor (C\<lparr>fromJS := f\<rparr>)) objects options =
      Inl (TypeError ''objects must be a non-empty array of js to test'')) \<and>
   (isArray objects \<longrightarrow> elements objects \<noteq> [] \<longrightarrow> name C = [] \<longrightarrow>
    testImmutableClass ps (Constructor (C\<lparr>fromJS := f\<rparr>)) objects options =
      Inl (Error ''Class must have a name of at least 1 letter''))"
  by (simp add: testImmutableClass_def)

theorem preconditions_first_witness:
  "testImmutableClass prototypes (NonFunction (JStr ''Animal'')) (JArr []) no_options =
     Inl (TypeError ''ClassFn must be a constructor function'') \<and>
   \<not> isArray (JStr ''Koala'') \<and>
   testImmutableClass prototypes (Constructor (Animal\<lparr>name := [], fromJS := Default\<rparr>))
     (JStr ''Koala'') no_options =
     Inl (TypeError ''objects must be a non-empty array of js to test'') \<and>
   elements (JArr []) = [] \<and>
   testImmutableClass prototypes (Constructor (Animal\<lparr>name := [], fromJS := Default\<rparr>))
     (JArr []) no_options =
     Inl (TypeError ''objects must be a non-empty array of js to test'') \<and>
   testImmutableClass prototypes (Constructor (Animal\<lparr>name := [], fromJS := Default\<rparr>))
     (JArr [JStr ''Koala'']) no_options =
     Inl (Error ''Class must have a name of at least 1 letter'')"
  using
    preconditions_first [where ps = prototypes and v = "JStr ''Animal''" and objects = "JArr []"
      and options = no_options and C = "Animal\<lparr>name := []\<rparr>" and f = Default]
    preconditions_first [where ps = prototypes and objects = "JStr ''Koala''"
      and options = no_options and C = "Animal\<lparr>name := []\<rparr>" and f = Default]
    preconditions_first [where ps = prototypes and objects = "JArr [JStr ''Koala'']"
      and options = no_options and C = "Animal\<lparr>name := []\<rparr>" and f = Default]
  by simp

text \<open>
  C5. For every sample index \<open>i\<close>, \<open>testImmutableClass\<close> asserts that \<open>inst.equals\<close>
  is \<open>false\<close> on \<open>null\<close>, on an empty array, on \<open>inst.valueOf()\<close> and on a plain
  object that holds the own enumerable fields of \<open>inst\<close>. First part: a run that returns
  has found the four results \<open>false\<close> for every sample. Second part: the plain object
  holds exactly the own fields of the instance. Third part: when one of the four
  results is \<open>true\<close>, the check of the sample raises.
\<close>

theorem not_duck_typed:
  "(testImmutableClass ps (Constructor C) (JArr objs) options = Inr final \<longrightarrow>
      (\<forall>i<length objs. \<exists>copy after p fs v.
         JSON_parse (stringify (probed C options objs ! i)) = Inr copy \<and>
         call_fromJS C copy (context' options) = Inr (after, Inst p fs) \<and>
         call_equals ps (Inst p fs) (Plain JNull) = Inr (Plain (JBool False)) \<and>
         call_equals ps (Inst p fs) (Plain (JArr [])) = Inr (Plain (JBool False)) \<and>
         call_valueOf ps p fs = Inr v \<and>
         call_equals ps (Inst p fs) v = Inr (Plain (JBool False)) \<and>
         call_equals ps (Inst p fs) (Plain (JObj (lazyCopy fs (for_in ps p fs)))) =
           Inr (Plain (JBool False)))) \<and>
   (distinct (map fst fs) \<longrightarrow> lazyCopy fs (for_in ps p fs) = fs) \<and>
   (JSON_parse (stringify (objects ! i)) = Inr copy \<longrightarrow>
    call_fromJS C copy (context' options) = Inr (after, Inst p fs) \<longrightarrow>
    (call_equals ps (Inst p fs) (Plain JNull) = Inr (Plain (JBool True)) \<or>
     call_equals ps (Inst p fs) (Plain (JArr [])) = Inr (Plain (JBool True)) \<or>
     (\<exists>v. call_valueOf ps p fs = Inr v \<and>
          call_equals ps (Inst p fs) v = Inr (Plain (JBool True))) \<or>
     call_equals ps (Inst p fs) (Plain (JObj (lazyCopy fs (for_in ps p fs)))) =
       Inr (Plain (JBool True))) \<longrightarrow>
    (\<exists>e. check_object ps C options className instanceName objects i = Inl e))"
proof (intro conjI impI allI)
  fix i
  assume run: "testImmutableClass ps (Constructor C) (JArr objs) options = Inr final"
    and i: "i < length objs"
  from check_object_Inr [OF sample_checked [OF run i]]
  obtain copy called p fs v where
    a: "JSON_parse (stringify (probed C options objs ! i)) = Inr copy"
    "call_equals ps (Inst p fs) (Plain JNull) = Inr (Plain (JBool False))"
    "call_equals ps (Inst p fs) (Plain (JArr [])) = Inr (Plain (JBool False))"
    "call_valueOf ps p fs = Inr v"
    "call_equals ps (Inst p fs) v = Inr (Plain (JBool False))"
    "call_equals ps (Inst p fs) (Plain (JObj (lazyCopy fs (for_in ps p fs)))) =
       Inr (Plain (JBool False))" and
    b: "call_fromJS C copy (context' options) = Inr called"
    "snd called = Inst p fs"
    by blast
  from b have "call_fromJS C copy (context' options) = Inr (fst called, Inst p fs)"
    by (cases called) simp
  with a
  show "\<exists>copy after p fs v.
         JSON_parse (stringify (probed C options objs ! i)) = Inr copy \<and>
         call_fromJS C copy (context' options) = Inr (after, Inst p fs) \<and>
         call_equals ps (Inst p fs) (Plain JNull) = Inr (Plain (JBool False)) \<and>
         call_equals ps (Inst p fs) (Plain (JArr [])) = Inr (Plain (JBool False)) \<and>
         call_valueOf ps p fs = Inr v \<and>
         call_equals ps (Inst p fs) v = Inr (Plain (JBool False)) \<and>
         call_equals ps (Inst p fs) (Plain (JObj (lazyCopy fs (for_in ps p fs)))) =
           Inr (Plain (JBool False))"
    by blast
next
  assume "distinct (map fst fs)"
  then show "lazyCopy fs (for_in ps p fs) = fs"
    by (rule lazyCopy_for_in)
next
  assume h: "JSON_parse (stringify (objects ! i)) = Inr copy"
    "call_fromJS C copy (context' options) = Inr (after, Inst p fs)"
    and t: "call_equals ps (Inst p fs) (Plain JNull) = Inr (Plain (JBool True)) \<or>
     call_equals ps (Inst p fs) (Plain (JArr [])) = Inr (Plain (JBool True)) \<or>
     (\<exists>v. call_valueOf ps p fs = Inr v \<and>
          call_equals ps (Inst p fs) v = Inr (Plain (JBool True))) \<or>
     call_equals ps (Inst p fs) (Plain (JObj (lazyCopy fs (for_in ps p fs)))) =
       Inr (Plain (JBool True))"
  show "\<exists>e. check_object ps C options className instanceName objects i = Inl e"
  proof (cases "check_object ps C options className instanceName objects i")
    case (Inl e)
    then show ?thesis by blast
  next
    case (Inr u)
    then have "check_object ps C options className instanceName objects i = Inr ()" by simp
    from check_object_Inr [OF this]
    obtain copy' called' p' fs' v' where
      c: "JSON_parse (stringify (objects ! i)) = Inr copy'"
      "call_fromJS C copy' (context' options) = Inr called'"
      "snd called' = Inst p' fs'" and
      d: "call_equals ps (Inst p' fs') (Plain JNull) = Inr (Plain (JBool False))"
      "call_equals ps (Inst p' fs') (Plain (JArr [])) = Inr (Plain (JBool False))"
      "call_valueOf ps p' fs' = Inr v'"
      "call_equals ps (Inst p' fs') v' = Inr (Plain (JBool False))"
      "call_equals ps (Inst p' fs') (Plain (JObj (lazyCopy fs' (for_in ps p' fs')))) =
         Inr (Plain (JBool False))"
      by blast
    from c h have "p' = p" "fs' = fs" by auto
    with d t show ?thesis
      by (auto simp del: call_equals.simps)
  qed
qed

theorem not_duck_typed_witness:
  "testImmutableClass prototypes (Constructor Animal) (JArr [JStr ''Koala'']) no_options =
     Inr [JStr ''Koala''] \<and>
   (\<exists>copy after p fs v.
      JSON_parse (stringify (probed Animal no_options [JStr ''Koala''] ! 0)) = Inr copy \<and>
      call_fromJS Animal copy (context' no_options) = Inr (after, Inst p fs) \<and>
      call_equals prototypes (Inst p fs) (Plain JNull) = Inr (Plain (JBool False)) \<and>
      call_equals prototypes (Inst p fs) (Plain (JArr [])) = Inr (Plain (JBool False)) \<and>
      call_valueOf prototypes p fs = Inr v \<and>
      call_equals prototypes (Inst p fs) v = Inr (Plain (JBool False)) \<and>
      call_equals prototypes (Inst p fs) (Plain (JObj (lazyCopy fs (for_in prototypes p fs)))) =
        Inr (Plain (JBool False))) \<and>
   distinct (map fst [(''name'', JStr ''Koala'')]) \<and>
   lazyCopy [(''name'', JStr ''Koala'')] (for_in prototypes 1 [(''name'', JStr ''Koala'')]) =
     [(''name'', JStr ''Koala'')] \<and>
   call_equals duck_prototypes (Inst 3 [(''id'', JNum 0), (''note'', JStr ''x'')])
     (Plain (JObj (lazyCopy [(''id'', JNum 0), (''note'', JStr ''x'')]
        (for_in duck_prototypes 3 [(''id'', JNum 0), (''note'', JStr ''x'')])))) =
     Inr (Plain (JBool True)) \<and>
   (\<exists>e. check_object duck_prototypes Memo no_options ''Memo'' ''memo'' [memo0] 0 = Inl e)"
proof -
  have run:
    "testImmutableClass prototypes (Constructor Animal) (JArr [JStr ''Koala'']) no_options =
       Inr [JStr ''Koala'']"
    by code_simp
  have d: "distinct (map fst [(''name'', JStr ''Koala'')])"
    by simp
  have h:
    "JSON_parse (stringify ([memo0] ! 0)) = Inr memo0"
    "call_fromJS Memo memo0 (context' no_options) =
       Inr (memo0, Inst 3 [(''id'', JNum 0), (''note'', JStr ''x'')])"
    by code_simp+
  have duck:
    "call_equals duck_prototypes (Inst 3 [(''id'', JNum 0), (''note'', JStr ''x'')])
       (Plain (JObj (lazyCopy [(''id'', JNum 0), (''note'', JStr ''x'')]
          (for_in duck_prototypes 3 [(''id'', JNum 0), (''note'', JStr ''x'')])))) =
     Inr (Plain (JBool True))"
    by code_simp
  from not_duck_typed
    [where ps = prototypes and C = Animal and objs = "[JStr ''Koala'']" and options = no_options,
     THEN conjunct1, rule_format, OF run, of 0]
  have first: "\<exists>copy after p fs v.
      JSON_parse (stringify (probed Animal no_options [JStr ''Koala''] ! 0)) = Inr copy \<and>
      call_fromJS Animal copy (context' no_options) = Inr (after, Inst p fs) \<and>
      call_equals prototypes (Inst p fs) (Plain JNull) = Inr (Plain (JBool False)) \<and>
      call_equals prototypes (Inst p fs) (Plain (JArr [])) = Inr (Plain (JBool False)) \<and>
      call_valueOf prototypes p fs = Inr v \<and>
      call_equals prototypes (Inst p fs) v = Inr (Plain (JBool False)) \<and>
      call_equals prototypes (Inst p fs) (Plain (JObj (lazyCopy fs (for_in prototypes p fs)))) =
        Inr (Plain (JBool False))"
    by (simp del: call_equals.simps)
  from not_duck_typed
    [where fs = "[(''name'', JStr ''Koala'')]" and ps = prototypes and p = 1,
     THEN conjunct2, THEN conjunct1, rule_format, OF d]
  have second:
    "lazyCopy [(''name'', JStr ''Koala'')] (for_in prototypes 1 [(''name'', JStr ''Koala'')]) =
       [(''name'', JStr ''Koala'')]" .
  from not_duck_typed
    [where ps = duck_prototypes and C = Memo and options = no_options and objects = "[memo0]"
       and i = 0 and copy = memo0 and after = memo0 and p = 3
       and fs = "[(''id'', JNum 0), (''note'', JStr ''x'')]"
       and className = "''Memo''" and instanceName = "''memo''",
     THEN conjunct2, THEN conjunct2, rule_format, OF h] duck
  have third: "\<exists>e. check_object duck_prototypes Memo no_options ''Memo'' ''memo'' [memo0] 0 = Inl e"
    by blast
  from run first d second duck third show ?thesis by blast
qed

text \<open>
  C9, as stated: the per-sample checks can only pass for samples that are invariant
  under a JSON text round-trip. The class \<open>Memo\<close> passes every check with the sample
  \<open>{ id: 1, note: undefined }\<close>, whose JSON copy \<open>{ id: 1 }\<close> does not deep-equal it:
  its \<open>toJS()\<close> writes the key that JSON left out.
\<close>

theorem passes_without_round_trip:
  "testImmutableClass prototypes (Constructor Memo) (JArr [memo0, memo1]) no_options =
     Inr [memo0, JObj [(''id'', JNum 1)]] \<and>
   check_object prototypes Memo no_options ''Memo'' ''memo'' [memo0, memo1] 1 = Inr () \<and>
   JSON_parse (stringify memo1) = Inr (JObj [(''id'', JNum 1)]) \<and>
   \<not> deep_equal (JObj [(''id'', JNum 1)]) memo1 \<and>
   \<not> deep_equal memo1 (JObj [(''id'', JNum 1)])"
  by code_simp

text \<open>
  C9, amended. In the per-sample phase \<open>fromJS\<close> is given
  \<open>JSON.parse(JSON.stringify(objects[i]))\<close>, and later
  \<open>JSON.parse(JSON.stringify(inst))\<close>, never \<open>objects[i]\<close> itself, while the fixed-point
  assertion compares \<open>toJS()\<close> of the instance with \<open>objects[i]\<close>: the checks pass only
  if \<open>toJS()\<close> of the instance built from the JSON copy deep-equals the sample. For a
  class whose \<open>toJS()\<close> returns what \<open>fromJS\<close> was given, that is: only if the JSON copy
  deep-equals the sample.
\<close>

theorem copy_checked_against_sample:
  assumes "testImmutableClass ps (Constructor C) (JArr objs) options = Inr final"
    and "i < length objs"
  shows "\<exists>copy after inst t instJSON parsed called2.
    JSON_parse (stringify (probed C options objs ! i)) = Inr copy \<and>
    call_fromJS C copy (context' options) = Inr (after, inst) \<and>
    call_toJS ps inst = Inr t \<and>
    deep_equal t (probed C options objs ! i) \<and>
    JSON_stringify ps inst = Inr instJSON \<and>
    JSON_parse instJSON = Inr parsed \<and>
    call_fromJS C parsed (context' options) = Inr called2 \<and>
    (t = copy \<longrightarrow> deep_equal copy (probed C options objs ! i))"
proof -
  from check_object_Inr [OF sample_checked [OF assms]]
  obtain copy called p fs t instJSON parsed called2 where
    a: "JSON_parse (stringify (probed C options objs ! i)) = Inr copy"
    "call_toJS ps (Inst p fs) = Inr t" "deep_equal t (probed C options objs ! i)"
    "JSON_stringify ps (Inst p fs) = Inr instJSON"
    "JSON_parse instJSON = Inr parsed"
    "call_fromJS C parsed (context' options) = Inr called2" and
    b: "call_fromJS C copy (context' options) = Inr called"
    "snd called = Inst p fs"
    by blast
  from b have "call_fromJS C copy (context' options) = Inr (fst called, Inst p fs)"
    by (cases called) simp
  with a show ?thesis by blast
qed

theorem copy_checked_against_sample_witness:
  "testImmutableClass prototypes (Constructor Memo) (JArr [memo0, memo1]) no_options =
     Inr [memo0, JObj [(''id'', JNum 1)]] \<and>
   (\<exists>copy after inst t instJSON parsed called2.
      JSON_parse (stringify (probed Memo no_options [memo0, memo1] ! 1)) = Inr copy \<and>
      call_fromJS Memo copy (context' no_options) = Inr (after, inst) \<and>
      call_toJS prototypes inst = Inr t \<and>
      deep_equal t (probed Memo no_options [memo0, memo1] ! 1) \<and>
      JSON_stringify prototypes inst = Inr instJSON \<and>
      JSON_parse instJSON = Inr parsed \<and>
      call_fromJS Memo parsed (context' no_options) = Inr called2)"
proof -
  have run:
    "testImmutableClass prototypes (Constructor Memo) (JArr [memo0, memo1]) no_options =
       Inr [memo0, JObj [(''id'', JNum 1)]]"
    by code_simp
  from copy_checked_against_sample [OF run, of 1] run show ?thesis
    by (simp del: call_toJS.simps JSON_stringify.simps) blast
qed

text \<open>
  C2. In the last phase, for every pair of sample indices \<open>j \<le> k\<close>, \<open>testImmutableClass\<close>
  builds both instances with \<open>fromJS\<close>, each by a call of its own with the context, and
  asserts that \<open>objectJ.equals(objectK)\<close> is \<open>j === k\<close>; a wrong result raises the error
  that names \<open>j\<close> and \<open>k\<close>. First part: a run that returns has found this for every such
  pair, \<open>fromJS\<close> being given \<open>objects[j]\<close>, then \<open>objects[k]\<close>, of the array as the
  iteration \<open>j\<close> finds it (\<open>objects_at\<close>: line 287 and the earlier iterations have given
  these elements to \<open>fromJS\<close> before). Second part: when \<open>fromJS\<close> leaves each of the
  given samples as it is, these are the given samples \<open>objs ! j\<close> and \<open>objs ! k\<close>
  themselves. Third part: the inner loop, at a pair whose result is not \<open>j === k\<close>,
  raises the error that names \<open>j\<close> and \<open>k\<close>. Fourth part: when \<open>fromJS\<close> leaves each of
  the given samples as it is, a wrong result for any pair makes the run raise.
\<close>

theorem equal_only_to_themselves:
  "(testImmutableClass ps (Constructor C) (JArr objs) options = Inr final \<longrightarrow>
      (\<forall>j k. j \<le> k \<and> k < length objs \<longrightarrow>
         (\<exists>after objectJ afterK objectK.
            call_fromJS C (objects_at C (context' options) (probed C options objs) j ! j)
              (context' options) = Inr (after, objectJ) \<and>
            call_fromJS C ((objects_at C (context' options) (probed C options objs) j)[j := after] ! k)
              (context' options) = Inr (afterK, objectK) \<and>
            call_equals ps objectJ objectK = Inr (Plain (JBool (j = k)))))) \<and>
   ((\<forall>x\<in>set objs. \<forall>a r. call_fromJS C x (context' options) = Inr (a, r) \<longrightarrow> a = x) \<longrightarrow>
    testImmutableClass ps (Constructor C) (JArr objs) options = Inr final \<longrightarrow>
      (\<forall>j k. j \<le> k \<and> k < length objs \<longrightarrow>
         (\<exists>objectJ objectK.
            call_fromJS C (objs ! j) (context' options) = Inr (objs ! j, objectJ) \<and>
            call_fromJS C (objs ! k) (context' options) = Inr (objs ! k, objectK) \<and>
            call_equals ps objectJ objectK = Inr (Plain (JBool (j = k)))))) \<and>
   (k < length objects \<longrightarrow>
    call_fromJS C (objects ! k) ctx = Inr (after, objectK) \<longrightarrow>
    call_equals ps objectJ objectK = Inr r \<longrightarrow>
    r \<noteq> Plain (JBool (j = k)) \<longrightarrow>
    equality_inner ps C ctx j objectJ objects k =
      Inl (AssertionError
             (''Equality of objects '' @ show_nat j @ '' and '' @ show_nat k @ '' was wrong'')
             (ToEqual r (j = k)))) \<and>
   ((\<forall>x\<in>set objs. \<forall>a r. call_fromJS C x (context' options) = Inr (a, r) \<longrightarrow> a = x) \<longrightarrow>
    j \<le> k \<longrightarrow> k < length objs \<longrightarrow>
    call_fromJS C (objs ! j) (context' options) = Inr (afterJ, objectJ) \<longrightarrow>
    call_fromJS C (objs ! k) (context' options) = Inr (after, objectK) \<longrightarrow>
    call_equals ps objectJ objectK = Inr r \<longrightarrow>
    r \<noteq> Plain (JBool (j = k)) \<longrightarrow>
    (\<exists>e. testImmutableClass ps (Constructor C) (JArr objs) options = Inl e))"
proof -
  have pairs: "\<exists>after objectJ afterK objectK.
      call_fromJS C (objects_at C (context' options) (probed C options objs) j ! j)
        (context' options) = Inr (after, objectJ) \<and>
      call_fromJS C ((objects_at C (context' options) (probed C options objs) j)[j := after] ! k)
        (context' options) = Inr (afterK, objectK) \<and>
      call_equals ps objectJ objectK = Inr (Plain (JBool (j = k)))"
    if run: "testImmutableClass ps (Constructor C) (JArr objs) options = Inr final"
      and jk: "j \<le> k \<and> k < length objs"
    for final j k
  proof -
    from testImmutableClass_Inr [OF run] have
      outer: "equality_outer ps C (context' options) (probed C options objs) 0 = Inr final"
      by simp
    have start: "probed C options objs = objects_at C (context' options) (probed C options objs) 0"
      by simp
    from jk have "0 \<le> j" "j \<le> k" "k < length (probed C options objs)"
      by (simp_all add: length_probed)
    from equality_outer_pairs [OF outer start this] show ?thesis .
  qed
  have given: "\<exists>objectJ objectK.
      call_fromJS C (objs ! j) (context' options) = Inr (objs ! j, objectJ) \<and>
      call_fromJS C (objs ! k) (context' options) = Inr (objs ! k, objectK) \<and>
      call_equals ps objectJ objectK = Inr (Plain (JBool (j = k)))"
    if same: "\<forall>x\<in>set objs. \<forall>a r. call_fromJS C x (context' options) = Inr (a, r) \<longrightarrow> a = x"
      and run: "testImmutableClass ps (Constructor C) (JArr objs) options = Inr final"
      and jk: "j \<le> k \<and> k < length objs"
    for final j k
  proof -
    have at: "objects_at C (context' options) (probed C options objs) j = objs"
      using objects_at_unchanged [OF leaves_unchanged [OF same]] probed_samples_unchanged [OF same]
      by simp
    from pairs [OF run jk] obtain after objectJ afterK objectK where
      a: "call_fromJS C (objs ! j) (context' options) = Inr (after, objectJ)" and
      b: "call_fromJS C (objs[j := after] ! k) (context' options) = Inr (afterK, objectK)" and
      c: "call_equals ps objectJ objectK = Inr (Plain (JBool (j = k)))"
      unfolding at by blast
    from jk have "objs ! j \<in> set objs" "objs ! k \<in> set objs" by simp_all
    with same a have aj: "after = objs ! j" by blast
    with b have b': "call_fromJS C (objs ! k) (context' options) = Inr (afterK, objectK)" by simp
    with same \<open>objs ! k \<in> set objs\<close> have "afterK = objs ! k" by blast
    with a aj b' c show ?thesis by blast
  qed
  have wrong: "equality_inner ps C ctx j objectJ objects k =
      Inl (AssertionError
             (''Equality of objects '' @ show_nat j @ '' and '' @ show_nat k @ '' was wrong'')
             (ToEqual r (j = k)))"
    if "k < length objects"
      "call_fromJS C (objects ! k) ctx = Inr (after, objectK)"
      "call_equals ps objectJ objectK = Inr r"
      "r \<noteq> Plain (JBool (j = k))"
    using that
    by (simp add: equality_inner.simps [of ps C ctx j objectJ objects k] check_equality_def
          andThen_def expect_def del: call_equals.simps)
  have raises: "\<exists>e. testImmutableClass ps (Constructor C) (JArr objs) options = Inl e"
    if same: "\<forall>x\<in>set objs. \<forall>a r. call_fromJS C x (context' options) = Inr (a, r) \<longrightarrow> a = x"
      and jk: "j \<le> k" "k < length objs"
      and h: "call_fromJS C (objs ! j) (context' options) = Inr (afterJ, objectJ)"
        "call_fromJS C (objs ! k) (context' options) = Inr (after, objectK)"
        "call_equals ps objectJ objectK = Inr r"
        "r \<noteq> Plain (JBool (j = k))"
  proof (cases "testImmutableClass ps (Constructor C) (JArr objs) options")
    case (Inl e)
    then show ?thesis by blast
  next
    case (Inr final)
    from jk have "j \<le> k \<and> k < length objs" by simp
    from given [OF same Inr this] h show ?thesis
      by (auto simp del: call_equals.simps)
  qed
  from pairs given wrong raises show ?thesis
    by (intro conjI impI allI) blast+
qed


theorem equal_only_to_themselves_witness:
  "testImmutableClass prototypes (Constructor Animal) (JArr [JStr ''Koala'', JStr ''Snake''])
     no_options = Inr [JStr ''Koala'', JStr ''Snake''] \<and>
   (\<exists>after objectJ afterK objectK.
      call_fromJS Animal ([JStr ''Koala'', JStr ''Snake''] ! 0) (context' no_options) =
        Inr (after, objectJ) \<and>
      call_fromJS Animal ([JStr ''Koala'', JStr ''Snake''][0 := after] ! 1) (context' no_options) =
        Inr (afterK, objectK) \<and>
      call_equals prototypes objectJ objectK = Inr (Plain (JBool False))) \<and>
   (\<exists>objectJ objectK.
      call_fromJS Animal (JStr ''Koala'') (context' no_options) = Inr (JStr ''Koala'', objectJ) \<and>
      call_fromJS Animal (JStr ''Snake'') (context' no_options) = Inr (JStr ''Snake'', objectK) \<and>
      call_equals prototypes objectJ objectK = Inr (Plain (JBool False))) \<and>
   call_equals prototypes (Inst 1 [(''name'', JStr ''Koala'')]) (Inst 1 [(''name'', JStr ''Koala'')]) =
     Inr (Plain (JBool True)) \<and>
   equality_inner prototypes Animal JUndefined 0 (Inst 1 [(''name'', JStr ''Koala'')])
     [JStr ''Koala'', JStr ''Koala''] 1 =
     Inl (AssertionError ''Equality of objects 0 and 1 was wrong''
            (ToEqual (Plain (JBool True)) False)) \<and>
   (\<exists>e. testImmutableClass prototypes (Constructor Animal) (JArr [JStr ''Koala'', JStr ''Koala''])
           no_options = Inl e) \<and>
   testImmutableClass prototypes (Constructor Animal) (JArr [JStr ''Koala'', JStr ''Koala''])
     no_options =
     Inl (AssertionError ''Equality of objects 0 and 1 was wrong''
            (ToEqual (Plain (JBool True)) False))"
proof -
  have run:
    "testImmutableClass prototypes (Constructor Animal) (JArr [JStr ''Koala'', JStr ''Snake''])
       no_options = Inr [JStr ''Koala'', JStr ''Snake'']"
    by code_simp
  have jk: "(0::nat) \<le> 1 \<and> 1 < length [JStr ''Koala'', JStr ''Snake'']"
    by simp
  have start: "probed Animal no_options [JStr ''Koala'', JStr ''Snake''] = [JStr ''Koala'', JStr ''Snake'']"
    by code_simp
  have same: "\<forall>x\<in>set objs. \<forall>a r. call_fromJS Animal x (context' no_options) = Inr (a, r) \<longrightarrow> a = x"
    for objs
    using Animal_leaves_unchanged [of "context' no_options"] by blast
  from equal_only_to_themselves
    [where ps = prototypes and C = Animal and objs = "[JStr ''Koala'', JStr ''Snake'']"
       and options = no_options, THEN conjunct1, rule_format, OF run jk]
  have first: "\<exists>after objectJ afterK objectK.
      call_fromJS Animal ([JStr ''Koala'', JStr ''Snake''] ! 0) (context' no_options) =
        Inr (after, objectJ) \<and>
      call_fromJS Animal ([JStr ''Koala'', JStr ''Snake''][0 := after] ! 1) (context' no_options) =
        Inr (afterK, objectK) \<and>
      call_equals prototypes objectJ objectK = Inr (Plain (JBool False))"
    unfolding objects_at.simps start by (simp del: call_equals.simps)
  from equal_only_to_themselves
    [where ps = prototypes and C = Animal and objs = "[JStr ''Koala'', JStr ''Snake'']"
       and options = no_options, THEN conjunct2, THEN conjunct1, THEN mp, OF same, THEN mp, OF run,
     THEN spec, THEN spec, THEN mp, OF jk]
  have given: "\<exists>objectJ objectK.
      call_fromJS Animal (JStr ''Koala'') (context' no_options) = Inr (JStr ''Koala'', objectJ) \<and>
      call_fromJS Animal (JStr ''Snake'') (context' no_options) = Inr (JStr ''Snake'', objectK) \<and>
      call_equals prototypes objectJ objectK = Inr (Plain (JBool False))"
    by (simp del: call_equals.simps)
  have h:
    "1 < length [JStr ''Koala'', JStr ''Koala'']"
    "call_fromJS Animal ([JStr ''Koala'', JStr ''Koala''] ! 1) JUndefined =
       Inr (JStr ''Koala'', Inst 1 [(''name'', JStr ''Koala'')])"
    "call_equals prototypes (Inst 1 [(''name'', JStr ''Koala'')])
       (Inst 1 [(''name'', JStr ''Koala'')]) = Inr (Plain (JBool True))"
    "Plain (JBool True) \<noteq> Plain (JBool ((0::nat) = 1))"
    by code_simp+
  have digits: "show_nat 0 = ''0''" "show_nat (Suc 0) = ''1''"
    by code_simp+
  from equal_only_to_themselves
    [where ps = prototypes and C = Animal and ctx = JUndefined and j = 0 and k = 1
       and objects = "[JStr ''Koala'', JStr ''Koala'']"
       and objectJ = "Inst 1 [(''name'', JStr ''Koala'')]",
     THEN conjunct2, THEN conjunct2, THEN conjunct1, rule_format, OF h]
  have second:
    "equality_inner prototypes Animal JUndefined 0 (Inst 1 [(''name'', JStr ''Koala'')])
       [JStr ''Koala'', JStr ''Koala''] 1 =
     Inl (AssertionError ''Equality of objects 0 and 1 was wrong''
            (ToEqual (Plain (JBool True)) False))"
    by (simp add: digits)
  have g:
    "(0::nat) \<le> 1"
    "1 < length [JStr ''Koala'', JStr ''Koala'']"
    "call_fromJS Animal ([JStr ''Koala'', JStr ''Koala''] ! 0) (context' no_options) =
       Inr (JStr ''Koala'', Inst 1 [(''name'', JStr ''Koala'')])"
    "call_fromJS Animal ([JStr ''Koala'', JStr ''Koala''] ! 1) (context' no_options) =
       Inr (JStr ''Koala'', Inst 1 [(''name'', JStr ''Koala'')])"
    by code_simp+
  from equal_only_to_themselves
    [where ps = prototypes and C = Animal and options = no_options and j = 0 and k = 1
       and objs = "[JStr ''Koala'', JStr ''Koala'']"
       and objectJ = "Inst 1 [(''name'', JStr ''Koala'')]",
     THEN conjunct2, THEN conjunct2, THEN conjunct2, THEN mp, OF same, rule_format,
     OF g h(3) h(4)]
  have raised: "\<exists>e. testImmutableClass prototypes (Constructor Animal)
      (JArr [JStr ''Koala'', JStr ''Koala'']) no_options = Inl e" .
  have named:
    "testImmutableClass prototypes (Constructor Animal) (JArr [JStr ''Koala'', JStr ''Koala''])
       no_options =
     Inl (AssertionError ''Equality of objects 0 and 1 was wrong''
            (ToEqual (Plain (JBool True)) False))"
    by code_simp
  from run first given h(3) second raised named show ?thesis
    by (intro conjI)
qed

text \<open>
  C10, as stated: in the last phase \<open>fromJS\<close> is given the elements of \<open>objects\<close>
  themselves, and what it does to them is not detected by any assertion of the checker.
  The class \<open>Defaulting\<close> passes the per-sample phase on the three samples (the JSON
  copy of \<open>{ id: 1, note: undefined }\<close> has no \<open>note\<close>, and \<open>fromJS\<close> leaves it alone); in
  the last phase its \<open>fromJS\<close> makes the sample 1 equal to the sample 2; the instances
  built from the samples 1 and 2 as they were given are not equal, as the assertion
  wants; and the run stops at the assertion of the pair \<open>(1, 2)\<close>, whose instances
  are by then built from equal values.
\<close>

theorem mutation_detected_by_later_pair:
  "preserves_loop prototypes Defaulting no_options ''Memo'' ''memo'' [memo0, memo1, memo2] 0 =
     Inr () \<and>
   call_fromJS Defaulting memo1 (context' no_options) =
     Inr (memo2, Inst 3 [(''id'', JNum 1), (''note'', JUndefined)]) \<and>
   memo2 \<noteq> memo1 \<and>
   call_fromJS Defaulting memo2 (context' no_options) =
     Inr (memo2, Inst 3 [(''id'', JNum 1), (''note'', JStr ''none'')]) \<and>
   call_equals prototypes (Inst 3 [(''id'', JNum 1), (''note'', JUndefined)])
     (Inst 3 [(''id'', JNum 1), (''note'', JStr ''none'')]) = Inr (Plain (JBool False)) \<and>
   testImmutableClass prototypes (Constructor Defaulting) (JArr [memo0, memo1, memo2]) no_options =
     Inl (AssertionError ''Equality of objects 1 and 2 was wrong''
            (ToEqual (Plain (JBool True)) False))"
  by code_simp

text \<open>
  C10, amended. In the last phase \<open>fromJS\<close> is given the elements of \<open>objects\<close>
  themselves, with no protective copy, so what it does to its argument is done to the
  caller's array, and no assertion compares the samples with what they were. First
  part: when the run returns, the caller's array is the array after the last iteration
  of the outer loop, whatever \<open>fromJS\<close> made of it: its element \<open>m\<close> is what \<open>m + 2\<close> calls
  of \<open>fromJS\<close>, each on what the one before left, have left of the element \<open>m\<close> of the
  array after line 287. Second part: the loops stop only when \<open>fromJS\<close> raises, when
  \<open>equals\<close> raises, or at the assertion on \<open>equals\<close> for a pair; a change of the samples
  shows only there. Third part: when \<open>fromJS\<close> leaves each of the given samples as it
  is, the array is returned as it was given.
\<close>

theorem equality_phase_changes_samples:
  "(testImmutableClass ps (Constructor C) (JArr objs) options = Inr final \<longrightarrow>
      final = objects_at C (context' options) (probed C options objs) (length objs) \<and>
      (\<forall>m<length objs.
         final ! m = (leaves C (context' options) ^^ (m + 2)) (probed C options objs ! m))) \<and>
   (equality_outer ps C ctx objects j = Inl e \<longrightarrow>
      (\<exists>x. call_fromJS C x ctx = Inl e) \<or> (\<exists>a b. call_equals ps a b = Inl e) \<or>
      (\<exists>j' k' r. j \<le> j' \<and> j' \<le> k' \<and> k' < length objects \<and> r \<noteq> Plain (JBool (j' = k')) \<and>
         e = AssertionError
               (''Equality of objects '' @ show_nat j' @ '' and '' @ show_nat k' @ '' was wrong'')
               (ToEqual r (j' = k')))) \<and>
   ((\<forall>x\<in>set objs. \<forall>a r. call_fromJS C x (context' options) = Inr (a, r) \<longrightarrow> a = x) \<longrightarrow>
    testImmutableClass ps (Constructor C) (JArr objs) options = Inr final \<longrightarrow> final = objs)"
proof -
  have result: "final = objects_at C (context' options) (probed C options objs) (length objs)"
    if run: "testImmutableClass ps (Constructor C) (JArr objs) options = Inr final"
  proof -
    from testImmutableClass_Inr [OF run] have
      outer: "equality_outer ps C (context' options) (probed C options objs) 0 = Inr final"
      by simp
    have start: "probed C options objs = objects_at C (context' options) (probed C options objs) 0"
      by simp
    from equality_outer_result [OF outer start] show ?thesis
      by (simp add: length_probed)
  qed
  have element: "final ! m = (leaves C (context' options) ^^ (m + 2)) (probed C options objs ! m)"
    if run: "testImmutableClass ps (Constructor C) (JArr objs) options = Inr final"
      and m: "m < length objs" for m
  proof -
    from m have "m < length (probed C options objs)" by (simp add: length_probed)
    from objects_at_nth [OF this, of C "context' options" "length objs"] m result [OF run]
    show ?thesis by simp
  qed
  have same: "final = objs"
    if same: "\<forall>x\<in>set objs. \<forall>a r. call_fromJS C x (context' options) = Inr (a, r) \<longrightarrow> a = x"
      and run: "testImmutableClass ps (Constructor C) (JArr objs) options = Inr final"
    using result [OF run] objects_at_unchanged [OF leaves_unchanged [OF same]]
      probed_samples_unchanged [OF same]
    by simp
  have raised:
    "(\<exists>x. call_fromJS C x ctx = Inl e) \<or> (\<exists>a b. call_equals ps a b = Inl e) \<or>
      (\<exists>j' k' r. j \<le> j' \<and> j' \<le> k' \<and> k' < length objects \<and> r \<noteq> Plain (JBool (j' = k')) \<and>
         e = AssertionError
               (''Equality of objects '' @ show_nat j' @ '' and '' @ show_nat k' @ '' was wrong'')
               (ToEqual r (j' = k')))"
    if "equality_outer ps C ctx objects j = Inl e"
    using that by (rule equality_outer_Inl)
  show ?thesis
  proof (intro conjI impI allI)
    assume "testImmutableClass ps (Constructor C) (JArr objs) options = Inr final"
    then show "final = objects_at C (context' options) (probed C options objs) (length objs)"
      by (rule result)
  next
    fix m
    assume "testImmutableClass ps (Constructor C) (JArr objs) options = Inr final"
      "m < length objs"
    then show "final ! m = (leaves C (context' options) ^^ (m + 2)) (probed C options objs ! m)"
      by (rule element)
  next
    assume "equality_outer ps C ctx objects j = Inl e"
    then show "(\<exists>x. call_fromJS C x ctx = Inl e) \<or> (\<exists>a b. call_equals ps a b = Inl e) \<or>
      (\<exists>j' k' r. j \<le> j' \<and> j' \<le> k' \<and> k' < length objects \<and> r \<noteq> Plain (JBool (j' = k')) \<and>
         e = AssertionError
               (''Equality of objects '' @ show_nat j' @ '' and '' @ show_nat k' @ '' was wrong'')
               (ToEqual r (j' = k')))"
      by (rule raised)
  next
    assume "\<forall>x\<in>set objs. \<forall>a r. call_fromJS C x (context' options) = Inr (a, r) \<longrightarrow> a = x"
      "testImmutableClass ps (Constructor C) (JArr objs) options = Inr final"
    then show "final = objs" by (rule same)
  qed
qed


theorem equality_phase_changes_samples_witness:
  "testImmutableClass prototypes (Constructor Memo) (JArr [memo0, memo1]) no_options =
     Inr [memo0, JObj [(''id'', JNum 1)]] \<and>
   [memo0, JObj [(''id'', JNum 1)]] \<noteq> [memo0, memo1] \<and>
   [memo0, JObj [(''id'', JNum 1)]] =
     objects_at Memo (context' no_options) (probed Memo no_options [memo0, memo1])
       (length [memo0, memo1]) \<and>
   [memo0, JObj [(''id'', JNum 1)]] ! 1 =
     (leaves Memo (context' no_options) ^^ (1 + 2)) (probed Memo no_options [memo0, memo1] ! 1) \<and>
   equality_outer prototypes Defaulting JUndefined [memo0, memo1, memo2] 0 =
     Inl (AssertionError ''Equality of objects 1 and 2 was wrong''
            (ToEqual (Plain (JBool True)) False)) \<and>
   ((\<exists>x. call_fromJS Defaulting x JUndefined =
          Inl (AssertionError ''Equality of objects 1 and 2 was wrong''
                 (ToEqual (Plain (JBool True)) False))) \<or>
    (\<exists>a b. call_equals prototypes a b =
          Inl (AssertionError ''Equality of objects 1 and 2 was wrong''
                 (ToEqual (Plain (JBool True)) False))) \<or>
    (\<exists>j' k' r. 0 \<le> j' \<and> j' \<le> k' \<and> k' < length [memo0, memo1, memo2] \<and>
       r \<noteq> Plain (JBool (j' = k')) \<and>
       AssertionError ''Equality of objects 1 and 2 was wrong''
         (ToEqual (Plain (JBool True)) False) =
       AssertionError
         (''Equality of objects '' @ show_nat j' @ '' and '' @ show_nat k' @ '' was wrong'')
         (ToEqual r (j' = k')))) \<and>
   testImmutableClass prototypes (Constructor Animal) (JArr [JStr ''Koala'', JStr ''Snake''])
     no_options = Inr [JStr ''Koala'', JStr ''Snake'']"
proof -
  have run:
    "testImmutableClass prototypes (Constructor Memo) (JArr [memo0, memo1]) no_options =
       Inr [memo0, JObj [(''id'', JNum 1)]]"
    by code_simp
  have changed: "[memo0, JObj [(''id'', JNum 1)]] \<noteq> [memo0, memo1]"
    by (simp add: memo1_def)
  note returned = equality_phase_changes_samples
    [where ps = prototypes and C = Memo and objs = "[memo0, memo1]" and options = no_options,
     THEN conjunct1, THEN mp, OF run]
  from returned [THEN conjunct1]
  have result: "[memo0, JObj [(''id'', JNum 1)]] =
     objects_at Memo (context' no_options) (probed Memo no_options [memo0, memo1])
       (length [memo0, memo1])" .
  have one: "1 < length [memo0, memo1]"
    by simp
  from returned [THEN conjunct2, THEN spec, THEN mp, OF one]
  have element: "[memo0, JObj [(''id'', JNum 1)]] ! 1 =
     (leaves Memo (context' no_options) ^^ (1 + 2)) (probed Memo no_options [memo0, memo1] ! 1)" .
  have stopped:
    "equality_outer prototypes Defaulting JUndefined [memo0, memo1, memo2] 0 =
       Inl (AssertionError ''Equality of objects 1 and 2 was wrong''
              (ToEqual (Plain (JBool True)) False))"
    by code_simp
  note raised = equality_phase_changes_samples
    [where ps = prototypes and C = Defaulting and ctx = JUndefined
       and objects = "[memo0, memo1, memo2]" and j = 0,
     THEN conjunct2, THEN conjunct1, THEN mp, OF stopped]
  have same: "\<forall>x\<in>set [JStr ''Koala'', JStr ''Snake''].
      \<forall>a r. call_fromJS Animal x (context' no_options) = Inr (a, r) \<longrightarrow> a = x"
    using Animal_leaves_unchanged [of "context' no_options"] by blast
  have kept: "testImmutableClass prototypes (Constructor Animal)
     (JArr [JStr ''Koala'', JStr ''Snake'']) no_options = Inr [JStr ''Koala'', JStr ''Snake'']"
    by code_simp
  from equality_phase_changes_samples
    [where ps = prototypes and C = Animal and objs = "[JStr ''Koala'', JStr ''Snake'']"
       and options = no_options,
     THEN conjunct2, THEN conjunct2, THEN mp, OF same, THEN mp, OF kept]
  have unchanged: "[JStr ''Koala'', JStr ''Snake''] = [JStr ''Koala'', JStr ''Snake'']" .
  from run changed result element stopped raised kept show ?thesis
    by (intro conjI)
qed

text \<open>
  C7. Every failure message of the per-sample phase is tagged \<open>[in object i]\<close>,
  including the one raised when \<open>fromJS\<close> modified its input. On the code, that one
  message (line 314) carries no tag: the run below stops at it, and so does the check
  of the sample with index 1, with the same text.
\<close>

theorem modified_input_message_untagged:
  "testImmutableClass prototypes (Constructor Flipping) (JArr [memo0, memo1]) no_options =
     Inl (AssertionError ''Memo.fromJS function modified its input :-(''
            (ToDeepEqual (JObj [(''id'', JNum 0), (''note'', JStr ''x''), (''seen'', JBool False)])
               (JObj [(''id'', JNum 0), (''note'', JStr ''x''), (''seen'', JBool True)]))) \<and>
   check_object prototypes Flipping no_options ''Memo'' ''memo'' [memo0, memo1] 1 =
     Inl (AssertionError ''Memo.fromJS function modified its input :-(''
            (ToDeepEqual (JObj [(''id'', JNum 1), (''seen'', JBool True)])
               (JObj [(''id'', JNum 1)])))"
  by code_simp

text \<open>
  C8. Every descriptor of \<open>PROPERTIES\<close> must have a \<open>name\<close> that is text. On the code,
  the assertion on \<open>property.name\<close> stands inside the loop over the descriptor's keys
  (lines 299 to 302): a descriptor without keys passes, and the run returns; a
  descriptor with a key and no \<open>name\<close> is refused.
\<close>

theorem empty_descriptor_accepted:
  "check_PROPERTIES (Animal\<lparr>PROPERTIES := JArr [JObj []]\<rparr>) = Inr () \<and>
   testImmutableClass prototypes (Constructor (Animal\<lparr>PROPERTIES := JArr [JObj []]\<rparr>))
     (JArr [JStr ''Koala'']) no_options = Inr [JStr ''Koala''] \<and>
   check_PROPERTIES (Animal\<lparr>PROPERTIES := JArr [JObj [(''type'', JStr ''STRING'')]]\<rparr>) =
     Inl (AssertionError [] (ToBeA ''string''))"
  by code_simp

end
